theory Spec2Isabelle
  imports Complex_Main "HOL-Library.Word" "HOL-Library.Log_Nat"
begin

section \<open>Device memory\<close>

text \<open>
  The kernels of \<^verbatim>\<open>fbpic/fields/cuda_methods.py\<close> work on two-dimensional device
  arrays of \<^verbatim>\<open>complex128\<close> and \<^verbatim>\<open>float64\<close> and on one-dimensional arrays of
  \<^verbatim>\<open>float64\<close>. An array has a shape and its elements; the elements are modelled as
  complex and real numbers. The arithmetic of the kernels is exact, so rounding is not part
  of the model, with one exception: the product of the spectral filter is rounded to
  \<^verbatim>\<open>float64\<close>, because what is stated about the filter compares two different sequences
  of products. An array argument of a
  kernel is a reference into the device memory: two arguments of a kernel may name the same
  array, and a store through one is then seen by a load through the other. Arrays of
  different element type are different buffers, so each element type has its own store.
\<close>

type_synonym ref = nat

record 'a ndarray =
  shape0 :: nat
  shape1 :: nat
  elems :: "nat \<Rightarrow> nat \<Rightarrow> 'a"

record memory =
  complex128_2d :: "ref \<Rightarrow> complex ndarray"
  float64_2d :: "ref \<Rightarrow> real ndarray"
  float64_1d :: "ref \<Rightarrow> real list"

type_synonym int8 = "8 word"
type_synonym int32 = "32 word"

text \<open>
  The kernels are compiled without bounds checks: a load or store outside an array's shape
  is undefined behaviour of the device. The model makes it the outcome \<open>Inl OutOfBounds\<close>
  of the thread, so that nothing is claimed about such a run.
\<close>

datatype error = OutOfBounds

definition cget :: "memory \<Rightarrow> ref \<Rightarrow> nat \<Rightarrow> nat \<Rightarrow> complex" where
  "cget m a iz ir = elems (complex128_2d m a) iz ir"

definition cset :: "memory \<Rightarrow> ref \<Rightarrow> nat \<Rightarrow> nat \<Rightarrow> complex \<Rightarrow> memory" where
  "cset m a iz ir v =
     m\<lparr>complex128_2d := (complex128_2d m)
          (a := (complex128_2d m a)
             \<lparr>elems := (elems (complex128_2d m a))
                (iz := (elems (complex128_2d m a) iz)(ir := v))\<rparr>)\<rparr>"

definition fget :: "memory \<Rightarrow> ref \<Rightarrow> nat \<Rightarrow> nat \<Rightarrow> real" where
  "fget m a iz ir = elems (float64_2d m a) iz ir"

definition vget :: "memory \<Rightarrow> ref \<Rightarrow> nat \<Rightarrow> real" where
  "vget m a ir = float64_1d m a ! ir"

definition cin :: "memory \<Rightarrow> ref list \<Rightarrow> nat \<Rightarrow> nat \<Rightarrow> bool" where
  "cin m as iz ir =
     list_all (\<lambda>a. iz < shape0 (complex128_2d m a) \<and> ir < shape1 (complex128_2d m a)) as"

definition fin :: "memory \<Rightarrow> ref list \<Rightarrow> nat \<Rightarrow> nat \<Rightarrow> bool" where
  "fin m as iz ir =
     list_all (\<lambda>a. iz < shape0 (float64_2d m a) \<and> ir < shape1 (float64_2d m a)) as"

definition vin :: "memory \<Rightarrow> ref list \<Rightarrow> nat \<Rightarrow> bool" where
  "vin m as ir = list_all (\<lambda>a. ir < length (float64_1d m a)) as"

section \<open>The kernels, one thread\<close>

text \<open>
  Each definition is the body of one kernel as one thread runs it; \<open>iz\<close> and \<open>ir\<close> are the
  thread's position \<^verbatim>\<open>cuda.grid(2)\<close>. The statements of the source run in order, each
  reading the memory its predecessors left. Every load and store of a kernel is at the
  thread's own position, so the bounds of all arrays the executed path touches are tested
  together, before the first statement.
\<close>

subsection \<open>Erasing functions\<close>

definition cuda_erase_scalar :: "ref \<Rightarrow> ref \<Rightarrow> nat \<Rightarrow> nat \<Rightarrow> memory \<Rightarrow> error + memory" where
  "cuda_erase_scalar mode0 mode1 iz ir m =
     (if iz < shape0 (complex128_2d m mode0) \<and> ir < shape1 (complex128_2d m mode0) then
        if cin m [mode0, mode1] iz ir then
          Inr (let m = cset m mode0 iz ir 0;
                   m = cset m mode1 iz ir 0
               in m)
        else Inl OutOfBounds
      else Inr m)"

definition cuda_erase_vector ::
  "ref \<Rightarrow> ref \<Rightarrow> ref \<Rightarrow> ref \<Rightarrow> ref \<Rightarrow> ref \<Rightarrow> nat \<Rightarrow> nat \<Rightarrow> memory \<Rightarrow> error + memory" where
  "cuda_erase_vector mode0r mode1r mode0t mode1t mode0z mode1z iz ir m =
     (if iz < shape0 (complex128_2d m mode0r) \<and> ir < shape1 (complex128_2d m mode0r) then
        if cin m [mode0r, mode0t, mode0z, mode1r, mode1t, mode1z] iz ir then
          Inr (let m = cset m mode0r iz ir 0;
                   m = cset m mode0t iz ir 0;
                   m = cset m mode0z iz ir 0;
                   m = cset m mode1r iz ir 0;
                   m = cset m mode1t iz ir 0;
                   m = cset m mode1z iz ir 0
               in m)
        else Inl OutOfBounds
      else Inr m)"

subsection \<open>Divide by volume functions\<close>

definition cuda_divide_scalar_by_volume ::
  "ref \<Rightarrow> ref \<Rightarrow> ref \<Rightarrow> ref \<Rightarrow> nat \<Rightarrow> nat \<Rightarrow> memory \<Rightarrow> error + memory" where
  "cuda_divide_scalar_by_volume mode0 mode1 invvol0 invvol1 iz ir m =
     (if iz < shape0 (complex128_2d m mode0) \<and> ir < shape1 (complex128_2d m mode0) then
        if cin m [mode0, mode1] iz ir \<and> vin m [invvol0, invvol1] ir then
          Inr (let m = cset m mode0 iz ir (cget m mode0 iz ir * complex_of_real (vget m invvol0 ir));
                   m = cset m mode1 iz ir (cget m mode1 iz ir * complex_of_real (vget m invvol1 ir))
               in m)
        else Inl OutOfBounds
      else Inr m)"

definition cuda_divide_vector_by_volume ::
  "ref \<Rightarrow> ref \<Rightarrow> ref \<Rightarrow> ref \<Rightarrow> ref \<Rightarrow> ref \<Rightarrow> ref \<Rightarrow> ref \<Rightarrow> nat \<Rightarrow> nat \<Rightarrow> memory
     \<Rightarrow> error + memory" where
  "cuda_divide_vector_by_volume mode0r mode1r mode0t mode1t mode0z mode1z invvol0 invvol1 iz ir m =
     (if iz < shape0 (complex128_2d m mode0r) \<and> ir < shape1 (complex128_2d m mode0r) then
        if cin m [mode0r, mode0t, mode0z, mode1r, mode1t, mode1z] iz ir
           \<and> vin m [invvol0, invvol1] ir then
          Inr (let m = cset m mode0r iz ir (cget m mode0r iz ir * complex_of_real (vget m invvol0 ir));
                   m = cset m mode0t iz ir (cget m mode0t iz ir * complex_of_real (vget m invvol0 ir));
                   m = cset m mode0z iz ir (cget m mode0z iz ir * complex_of_real (vget m invvol0 ir));
                   m = cset m mode1r iz ir (cget m mode1r iz ir * complex_of_real (vget m invvol1 ir));
                   m = cset m mode1t iz ir (cget m mode1t iz ir * complex_of_real (vget m invvol1 ir));
                   m = cset m mode1z iz ir (cget m mode1z iz ir * complex_of_real (vget m invvol1 ir))
               in m)
        else Inl OutOfBounds
      else Inr m)"

subsection \<open>Methods of the spectral grid\<close>

text \<open>
  \<open>Nz\<close> and \<open>Nr\<close> are \<^verbatim>\<open>int32\<close> arguments, compared as signed numbers with the thread's
  position. \<open>inv_dt\<close> is an argument the body of the current correction never reads.
\<close>

definition cuda_correct_currents ::
  "ref \<Rightarrow> ref \<Rightarrow> ref \<Rightarrow> ref \<Rightarrow> ref \<Rightarrow> ref \<Rightarrow> ref \<Rightarrow> ref \<Rightarrow> ref \<Rightarrow> ref \<Rightarrow> real \<Rightarrow> int32 \<Rightarrow> int32
     \<Rightarrow> nat \<Rightarrow> nat \<Rightarrow> memory \<Rightarrow> error + memory" where
  "cuda_correct_currents rho_prev rho_next Jp Jm Jz kz kr inv_k2 j_corr_coef T inv_dt Nz Nr iz ir m =
     (if int iz < sint Nz \<and> int ir < sint Nr then
        if cin m [rho_prev, rho_next, Jp, Jm, Jz, j_corr_coef, T] iz ir
           \<and> fin m [kz, kr, inv_k2] iz ir then
          Inr (let F = complex_of_real (- fget m inv_k2 iz ir)
                       * (cget m j_corr_coef iz ir
                            * (cget m rho_next iz ir - cget m rho_prev iz ir * cget m T iz ir)
                          + \<i> * complex_of_real (fget m kz iz ir) * cget m Jz iz ir
                          + complex_of_real (fget m kr iz ir) * (cget m Jp iz ir - cget m Jm iz ir));
                   m = cset m Jp iz ir
                         (cget m Jp iz ir + complex_of_real (0.5 * fget m kr iz ir) * F);
                   m = cset m Jm iz ir
                         (cget m Jm iz ir + complex_of_real (- 0.5 * fget m kr iz ir) * F);
                   m = cset m Jz iz ir
                         (cget m Jz iz ir + - \<i> * complex_of_real (fget m kz iz ir) * F)
               in m)
        else Inl OutOfBounds
      else Inr m)"

definition cuda_push_rho ::
  "ref \<Rightarrow> ref \<Rightarrow> int32 \<Rightarrow> int32 \<Rightarrow> nat \<Rightarrow> nat \<Rightarrow> memory \<Rightarrow> error + memory" where
  "cuda_push_rho rho_prev rho_next Nz Nr iz ir m =
     (if int iz < sint Nz \<and> int ir < sint Nr then
        if cin m [rho_prev, rho_next] iz ir then
          Inr (let m = cset m rho_prev iz ir (cget m rho_next iz ir);
                   m = cset m rho_next iz ir 0
               in m)
        else Inl OutOfBounds
      else Inr m)"

text \<open>
  The spectral filter multiplies a \<^verbatim>\<open>float64\<close> element of the damping array with a
  \<^verbatim>\<open>complex128\<close> element of the field. The real factor is converted to a complex number
  with imaginary part zero, so for finite values the real and the imaginary part of the
  product are the \<^verbatim>\<open>float64\<close> products of the factor with the real and with the imaginary
  part of the element. A \<^verbatim>\<open>float64\<close> product is the exact product rounded to the nearest
  number with a significand of 53 bits whose last bit has an exponent of at least -1074; of
  two nearest numbers the one with the even significand is taken. Overflow, infinities and
  NaN are outside the model: a product above the \<^verbatim>\<open>float64\<close> range is rounded as if
  the exponents had no upper end.
\<close>

definition round_half_even :: "real \<Rightarrow> int" where
  "round_half_even x =
     (let n = \<lfloor>x\<rfloor>; d = x - of_int n
      in if d < 1 / 2 then n else if 1 / 2 < d then n + 1 else if even n then n else n + 1)"

text \<open>The exponent of the last bit of the significand of the \<^verbatim>\<open>float64\<close> numbers around \<open>x\<close>.\<close>

definition float64_ulp_exponent :: "real \<Rightarrow> int" where
  "float64_ulp_exponent x = max (bitlen \<lfloor>\<bar>x\<bar> * 2 ^ 1074\<rfloor> - 53) 0 - 1074"

definition float64_round :: "real \<Rightarrow> real" where
  "float64_round x =
     (let q = 2 powi float64_ulp_exponent x in of_int (round_half_even (x / q)) * q)"

definition float64_mul :: "real \<Rightarrow> real \<Rightarrow> real" where
  "float64_mul x y = float64_round (x * y)"

definition float64_mul_complex128 :: "real \<Rightarrow> complex \<Rightarrow> complex" where
  "float64_mul_complex128 w z = Complex (float64_mul w (Re z)) (float64_mul w (Im z))"

definition cuda_filter_scalar ::
  "ref \<Rightarrow> ref \<Rightarrow> int32 \<Rightarrow> int32 \<Rightarrow> nat \<Rightarrow> nat \<Rightarrow> memory \<Rightarrow> error + memory" where
  "cuda_filter_scalar field filter_array Nz Nr iz ir m =
     (if int iz < sint Nz \<and> int ir < sint Nr then
        if cin m [field] iz ir \<and> fin m [filter_array] iz ir then
          Inr (cset m field iz ir
                 (float64_mul_complex128 (fget m filter_array iz ir) (cget m field iz ir)))
        else Inl OutOfBounds
      else Inr m)"

definition cuda_filter_vector ::
  "ref \<Rightarrow> ref \<Rightarrow> ref \<Rightarrow> ref \<Rightarrow> int32 \<Rightarrow> int32 \<Rightarrow> nat \<Rightarrow> nat \<Rightarrow> memory \<Rightarrow> error + memory" where
  "cuda_filter_vector fieldr fieldt fieldz filter_array Nz Nr iz ir m =
     (if int iz < sint Nz \<and> int ir < sint Nr then
        if cin m [fieldr, fieldt, fieldz] iz ir \<and> fin m [filter_array] iz ir then
          Inr (let m = cset m fieldr iz ir
                         (float64_mul_complex128 (fget m filter_array iz ir) (cget m fieldr iz ir));
                   m = cset m fieldt iz ir
                         (float64_mul_complex128 (fget m filter_array iz ir) (cget m fieldt iz ir));
                   m = cset m fieldz iz ir
                         (float64_mul_complex128 (fget m filter_array iz ir) (cget m fieldz iz ir))
               in m)
        else Inl OutOfBounds
      else Inr m)"

text \<open>
  The field push reads three constants of \<^verbatim>\<open>scipy.constants\<close>, which is not part of the
  repository: \<open>c\<close>, \<open>epsilon_0\<close> and \<open>mu_0\<close> are arguments of the model, and \<open>c2\<close> is
  the square the module computes from \<open>c\<close>. The switches \<open>ptcl_feedback\<close> and
  \<open>use_true_rho\<close> are \<^verbatim>\<open>int8\<close> arguments, true when they are not zero.
\<close>

definition c2 :: "real \<Rightarrow> real" where
  "c2 c = c ^ 2"

definition cuda_push_eb_with ::
  "real \<Rightarrow> real \<Rightarrow> real
     \<Rightarrow> ref \<Rightarrow> ref \<Rightarrow> ref \<Rightarrow> ref \<Rightarrow> ref \<Rightarrow> ref \<Rightarrow> ref \<Rightarrow> ref \<Rightarrow> ref
     \<Rightarrow> ref \<Rightarrow> ref
     \<Rightarrow> ref \<Rightarrow> ref \<Rightarrow> ref
     \<Rightarrow> ref \<Rightarrow> ref \<Rightarrow> ref \<Rightarrow> ref
     \<Rightarrow> ref \<Rightarrow> ref \<Rightarrow> real \<Rightarrow> real
     \<Rightarrow> int8 \<Rightarrow> int8 \<Rightarrow> int32 \<Rightarrow> int32
     \<Rightarrow> nat \<Rightarrow> nat \<Rightarrow> memory \<Rightarrow> error + memory" where
  "cuda_push_eb_with c epsilon_0 mu_0
       Ep Em Ez Bp Bm Bz Jp Jm Jz
       rho_prev rho_next
       rho_prev_coef rho_next_coef j_coef
       C S_w T T_rho
       kr kz dt V
       ptcl_feedback use_true_rho Nz Nr iz ir m =
     (if int iz < sint Nz \<and> int ir < sint Nr then
        if ptcl_feedback \<noteq> 0 then
          if cin m [Ep, Em, Ez, Bp, Bm, Bz, Jp, Jm, Jz,
                    rho_prev_coef, rho_next_coef, j_coef, T] iz ir
             \<and> fin m [C, S_w, kr, kz] iz ir
             \<and> (if use_true_rho \<noteq> 0 then cin m [rho_prev, rho_next] iz ir
                 else cin m [T_rho] iz ir) then
            Inr (let Ep_old = cget m Ep iz ir;
                     Em_old = cget m Em iz ir;
                     Ez_old = cget m Ez iz ir;
                     rho_diff =
                       (if use_true_rho \<noteq> 0 then
                          cget m rho_next_coef iz ir * cget m rho_next iz ir
                          - cget m rho_prev_coef iz ir * cget m rho_prev iz ir
                        else
                          (let divE = of_real (fget m kr iz ir)
                                        * (cget m Ep iz ir - cget m Em iz ir)
                                      + \<i> * of_real (fget m kz iz ir) * cget m Ez iz ir;
                               divJ = of_real (fget m kr iz ir)
                                        * (cget m Jp iz ir - cget m Jm iz ir)
                                      + \<i> * of_real (fget m kz iz ir) * cget m Jz iz ir
                           in (cget m T iz ir * cget m rho_next_coef iz ir
                               - cget m rho_prev_coef iz ir)
                                * of_real epsilon_0 * divE
                              + cget m T_rho iz ir * cget m rho_next_coef iz ir
                                * of_real dt * divJ));
                     m = cset m Ep iz ir
                           (cget m T iz ir * of_real (fget m C iz ir) * cget m Ep iz ir
                            + of_real (0.5 * fget m kr iz ir) * rho_diff
                            + cget m j_coef iz ir * \<i> * of_real (fget m kz iz ir)
                              * of_real V * cget m Jp iz ir
                            + of_real (c2 c) * cget m T iz ir * of_real (fget m S_w iz ir)
                              * (- \<i> * of_real 0.5 * of_real (fget m kr iz ir) * cget m Bz iz ir
                                 + of_real (fget m kz iz ir) * cget m Bp iz ir
                                 - of_real mu_0 * cget m Jp iz ir));
                     m = cset m Em iz ir
                           (cget m T iz ir * of_real (fget m C iz ir) * cget m Em iz ir
                            - of_real (0.5 * fget m kr iz ir) * rho_diff
                            + cget m j_coef iz ir * \<i> * of_real (fget m kz iz ir)
                              * of_real V * cget m Jm iz ir
                            + of_real (c2 c) * cget m T iz ir * of_real (fget m S_w iz ir)
                              * (- \<i> * of_real 0.5 * of_real (fget m kr iz ir) * cget m Bz iz ir
                                 - of_real (fget m kz iz ir) * cget m Bm iz ir
                                 - of_real mu_0 * cget m Jm iz ir));
                     m = cset m Ez iz ir
                           (cget m T iz ir * of_real (fget m C iz ir) * cget m Ez iz ir
                            - \<i> * of_real (fget m kz iz ir) * rho_diff
                            + cget m j_coef iz ir * \<i> * of_real (fget m kz iz ir)
                              * of_real V * cget m Jz iz ir
                            + of_real (c2 c) * cget m T iz ir * of_real (fget m S_w iz ir)
                              * (\<i> * of_real (fget m kr iz ir) * cget m Bp iz ir
                                 + \<i> * of_real (fget m kr iz ir) * cget m Bm iz ir
                                 - of_real mu_0 * cget m Jz iz ir));
                     m = cset m Bp iz ir
                           (cget m T iz ir * of_real (fget m C iz ir) * cget m Bp iz ir
                            - cget m T iz ir * of_real (fget m S_w iz ir)
                              * (- \<i> * of_real 0.5 * of_real (fget m kr iz ir) * Ez_old
                                 + of_real (fget m kz iz ir) * Ep_old)
                            + cget m j_coef iz ir
                              * (- \<i> * of_real 0.5 * of_real (fget m kr iz ir) * cget m Jz iz ir
                                 + of_real (fget m kz iz ir) * cget m Jp iz ir));
                     m = cset m Bm iz ir
                           (cget m T iz ir * of_real (fget m C iz ir) * cget m Bm iz ir
                            - cget m T iz ir * of_real (fget m S_w iz ir)
                              * (- \<i> * of_real 0.5 * of_real (fget m kr iz ir) * Ez_old
                                 - of_real (fget m kz iz ir) * Em_old)
                            + cget m j_coef iz ir
                              * (- \<i> * of_real 0.5 * of_real (fget m kr iz ir) * cget m Jz iz ir
                                 - of_real (fget m kz iz ir) * cget m Jm iz ir));
                     m = cset m Bz iz ir
                           (cget m T iz ir * of_real (fget m C iz ir) * cget m Bz iz ir
                            - cget m T iz ir * of_real (fget m S_w iz ir)
                              * (\<i> * of_real (fget m kr iz ir) * Ep_old
                                 + \<i> * of_real (fget m kr iz ir) * Em_old)
                            + cget m j_coef iz ir
                              * (\<i> * of_real (fget m kr iz ir) * cget m Jp iz ir
                                 + \<i> * of_real (fget m kr iz ir) * cget m Jm iz ir))
                 in m)
          else Inl OutOfBounds
        else
          if cin m [Ep, Em, Ez, Bp, Bm, Bz, T] iz ir \<and> fin m [C, S_w, kr, kz] iz ir then
            Inr (let Ep_old = cget m Ep iz ir;
                     Em_old = cget m Em iz ir;
                     Ez_old = cget m Ez iz ir;
                     m = cset m Ep iz ir
                           (cget m T iz ir * of_real (fget m C iz ir) * cget m Ep iz ir
                            + of_real (c2 c) * cget m T iz ir * of_real (fget m S_w iz ir)
                              * (- \<i> * of_real 0.5 * of_real (fget m kr iz ir) * cget m Bz iz ir
                                 + of_real (fget m kz iz ir) * cget m Bp iz ir));
                     m = cset m Em iz ir
                           (cget m T iz ir * of_real (fget m C iz ir) * cget m Em iz ir
                            + of_real (c2 c) * cget m T iz ir * of_real (fget m S_w iz ir)
                              * (- \<i> * of_real 0.5 * of_real (fget m kr iz ir) * cget m Bz iz ir
                                 - of_real (fget m kz iz ir) * cget m Bm iz ir));
                     m = cset m Ez iz ir
                           (cget m T iz ir * of_real (fget m C iz ir) * cget m Ez iz ir
                            + of_real (c2 c) * cget m T iz ir * of_real (fget m S_w iz ir)
                              * (\<i> * of_real (fget m kr iz ir) * cget m Bp iz ir
                                 + \<i> * of_real (fget m kr iz ir) * cget m Bm iz ir));
                     m = cset m Bp iz ir
                           (cget m T iz ir * of_real (fget m C iz ir) * cget m Bp iz ir
                            - cget m T iz ir * of_real (fget m S_w iz ir)
                              * (- \<i> * of_real 0.5 * of_real (fget m kr iz ir) * Ez_old
                                 + of_real (fget m kz iz ir) * Ep_old));
                     m = cset m Bm iz ir
                           (cget m T iz ir * of_real (fget m C iz ir) * cget m Bm iz ir
                            - cget m T iz ir * of_real (fget m S_w iz ir)
                              * (- \<i> * of_real 0.5 * of_real (fget m kr iz ir) * Ez_old
                                 - of_real (fget m kz iz ir) * Em_old));
                     m = cset m Bz iz ir
                           (cget m T iz ir * of_real (fget m C iz ir) * cget m Bz iz ir
                            - cget m T iz ir * of_real (fget m S_w iz ir)
                              * (\<i> * of_real (fget m kr iz ir) * Ep_old
                                 + \<i> * of_real (fget m kr iz ir) * Em_old))
                 in m)
          else Inl OutOfBounds
      else Inr m)"

section \<open>A kernel launch\<close>

text \<open>
  A launch with \<open>griddim\<close> blocks of \<open>blockdim\<close> threads runs the kernel once at every
  position \<open>(iz, ir)\<close> below \<open>(fst griddim * fst blockdim, snd griddim * snd blockdim)\<close>.
  The grid and block dimensions are chosen by the caller and are parameters here. No
  thread of these kernels loads or stores at a position other than its own, so the threads
  do not interfere and are run here one after the other; the launch stops at the first
  thread that leaves its arrays.
\<close>

type_synonym kernel = "nat \<Rightarrow> nat \<Rightarrow> memory \<Rightarrow> error + memory"

fun run_threads :: "kernel \<Rightarrow> (nat \<times> nat) list \<Rightarrow> memory \<Rightarrow> error + memory" where
  "run_threads k [] m = Inr m"
| "run_threads k (t # ts) m =
     (case k (fst t) (snd t) m of Inl e \<Rightarrow> Inl e | Inr m' \<Rightarrow> run_threads k ts m')"

definition grid_threads :: "nat \<times> nat \<Rightarrow> nat \<times> nat \<Rightarrow> (nat \<times> nat) list" where
  "grid_threads griddim blockdim =
     List.product [0 ..< fst griddim * fst blockdim] [0 ..< snd griddim * snd blockdim]"

definition launch :: "kernel \<Rightarrow> nat \<times> nat \<Rightarrow> nat \<times> nat \<Rightarrow> memory \<Rightarrow> error + memory" where
  "launch k griddim blockdim m = run_threads k (grid_threads griddim blockdim) m"

section \<open>Relations between two memories\<close>

text \<open>
  \<open>same_layout\<close>: the same shapes and the same real arrays; \<open>agree_at\<close>: moreover the same
  complex elements at one position; \<open>writes_only_at\<close>: moreover the same complex elements at
  every other position. A kernel is local when each of its threads writes at its own
  position only. \<open>writes_only_arrays as\<close>: every complex array outside \<open>as\<close> and every real
  array is the same. \<open>returns P r\<close>: a run that ended without an error ended in a memory that
  satisfies \<open>P\<close>.
\<close>

definition same_layout :: "memory \<Rightarrow> memory \<Rightarrow> bool" where
  "same_layout m m' \<longleftrightarrow>
     (\<forall>a. shape0 (complex128_2d m' a) = shape0 (complex128_2d m a)
        \<and> shape1 (complex128_2d m' a) = shape1 (complex128_2d m a))
     \<and> float64_2d m' = float64_2d m \<and> float64_1d m' = float64_1d m"

definition agree_at :: "nat \<Rightarrow> nat \<Rightarrow> memory \<Rightarrow> memory \<Rightarrow> bool" where
  "agree_at iz ir m m' \<longleftrightarrow> same_layout m m' \<and> (\<forall>a. cget m' a iz ir = cget m a iz ir)"

definition writes_only_at :: "nat \<Rightarrow> nat \<Rightarrow> memory \<Rightarrow> memory \<Rightarrow> bool" where
  "writes_only_at iz ir m m' \<longleftrightarrow>
     same_layout m m'
     \<and> (\<forall>a jz jr. (jz, jr) \<noteq> (iz, ir) \<longrightarrow> cget m' a jz jr = cget m a jz jr)"

definition local_kernel :: "kernel \<Rightarrow> bool" where
  "local_kernel k \<longleftrightarrow> (\<forall>iz ir m m'. k iz ir m = Inr m' \<longrightarrow> writes_only_at iz ir m m')"

definition writes_only_arrays :: "ref list \<Rightarrow> memory \<Rightarrow> memory \<Rightarrow> bool" where
  "writes_only_arrays as m m' \<longleftrightarrow>
     (\<forall>a. a \<notin> set as \<longrightarrow> complex128_2d m' a = complex128_2d m a)
     \<and> float64_2d m' = float64_2d m \<and> float64_1d m' = float64_1d m"

definition returns :: "(memory \<Rightarrow> bool) \<Rightarrow> error + memory \<Rightarrow> bool" where
  "returns P r = (case r of Inl e \<Rightarrow> True | Inr m' \<Rightarrow> P m')"

section \<open>Arrays that hold the grid\<close>

text \<open>
  \<open>cfits\<close> and \<open>ffits\<close>: the listed arrays hold at least \<open>Nz\<close> by \<open>Nr\<close> elements, as every
  array of a grid does, so that no thread inside the guard of a kernel leaves them.
\<close>

definition cfits :: "memory \<Rightarrow> ref list \<Rightarrow> int32 \<Rightarrow> int32 \<Rightarrow> bool" where
  "cfits m as Nz Nr =
     list_all (\<lambda>a. sint Nz \<le> int (shape0 (complex128_2d m a))
                 \<and> sint Nr \<le> int (shape1 (complex128_2d m a))) as"

definition ffits :: "memory \<Rightarrow> ref list \<Rightarrow> int32 \<Rightarrow> int32 \<Rightarrow> bool" where
  "ffits m as Nz Nr =
     list_all (\<lambda>a. sint Nz \<le> int (shape0 (float64_2d m a))
                 \<and> sint Nr \<le> int (shape1 (float64_2d m a))) as"

section \<open>Concrete memories\<close>

text \<open>
  \<open>uniform_memory n0 n1 cv fv\<close>: every two-dimensional array has the shape \<open>n0\<close> by \<open>n1\<close>,
  the complex array \<open>a\<close> holds \<open>cv a\<close> and the real array \<open>a\<close> holds \<open>fv a\<close>.
\<close>

definition uniform_memory ::
  "nat \<Rightarrow> nat \<Rightarrow> (ref \<Rightarrow> nat \<Rightarrow> nat \<Rightarrow> complex) \<Rightarrow> (ref \<Rightarrow> nat \<Rightarrow> nat \<Rightarrow> real) \<Rightarrow> memory" where
  "uniform_memory n0 n1 cv fv =
     \<lparr>complex128_2d = (\<lambda>a. \<lparr>shape0 = n0, shape1 = n1, elems = cv a\<rparr>),
      float64_2d = (\<lambda>a. \<lparr>shape0 = n0, shape1 = n1, elems = fv a\<rparr>),
      float64_1d = (\<lambda>a. replicate n1 1)\<rparr>"

text \<open>A small memory for concrete runs: every array is 2 by 2.\<close>

definition example_memory :: memory where
  "example_memory =
     uniform_memory 2 2 (\<lambda>a iz ir. Complex (of_nat a) (of_nat (iz + 2 * ir)))
       (\<lambda>a iz ir. if a = 2 then 1 / 2 else 1)"

text \<open>
  A memory for runs of the spectral filter: every array is 2 by 2; the real array 0 holds
  0.75 and every other real array its square 0.5625; every complex array holds \<open>1 + 0.5i\<close>
  in the row \<open>iz = 0\<close> and, in the row \<open>iz = 1\<close>, the \<^verbatim>\<open>float64\<close> number nearest to 0.1,
  which is \<open>3602879701896397 / 2^55\<close>.
\<close>

definition filter_example_memory :: memory where
  "filter_example_memory =
     uniform_memory 2 2
       (\<lambda>a iz ir. if iz = 0 then Complex 1 (1 / 2)
                  else Complex (3602879701896397 / 36028797018963968) 0)
       (\<lambda>a iz ir. if a = 0 then 3 / 4 else 9 / 16)"

text \<open>\<open>zero_arrays as m\<close>: the memory \<open>m\<close> with every element of the arrays \<open>as\<close> set to zero.\<close>

definition zero_arrays :: "ref list \<Rightarrow> memory \<Rightarrow> memory" where
  "zero_arrays as m =
     m\<lparr>complex128_2d :=
         (\<lambda>a. if a \<in> set as then (complex128_2d m a)\<lparr>elems := (\<lambda>iz ir. 0)\<rparr>
              else complex128_2d m a)\<rparr>"

text \<open>
  The concrete scenario of the specification: a 4 by 4 grid; the complex arrays \<open>Ep\<close>,
  \<open>Em\<close>, \<open>Ez\<close>, \<open>Bp\<close>, \<open>Bm\<close>, \<open>Bz\<close>, \<open>Jp\<close>, \<open>Jm\<close>, \<open>Jz\<close>, \<open>rho_prev\<close>, \<open>rho_next\<close>,
  \<open>rho_prev_coef\<close>, \<open>rho_next_coef\<close>, \<open>j_coef\<close>, \<open>T\<close>, \<open>T_rho\<close> are the references 0 to 15,
  the real arrays \<open>C\<close>, \<open>S_w\<close>, \<open>kr\<close>, \<open>kz\<close> the references 0 to 3. \<open>kz\<close> and \<open>kr\<close> are zero
  except at the cell (2, 1), where they are 1 and 0.5; \<open>Jz\<close> is 1 at that cell; \<open>T\<close>, \<open>C\<close>
  and \<open>T_rho\<close> are 1, \<open>S_w\<close> and \<open>j_coef\<close> are \<open>dt\<close>; every other field, current and charge
  density is zero. The scenario does not fix the two charge-density coefficients: they are
  the parameters \<open>rpc\<close> and \<open>rnc\<close>.
\<close>

definition golden_memory :: "real \<Rightarrow> complex \<Rightarrow> complex \<Rightarrow> memory" where
  "golden_memory dt rpc rnc =
     uniform_memory 4 4
       (\<lambda>a iz ir.
          if a = 8 then (if iz = 2 \<and> ir = 1 then 1 else 0)
          else if a = 11 then rpc
          else if a = 12 then rnc
          else if a = 13 then of_real dt
          else if a = 14 \<or> a = 15 then 1
          else 0)
       (\<lambda>a iz ir.
          if a = 0 then 1
          else if a = 1 then dt
          else if a = 2 then (if iz = 2 \<and> ir = 1 then 1 / 2 else 0)
          else if a = 3 then (if iz = 2 \<and> ir = 1 then 1 else 0)
          else 0)"

text \<open>The element an array holds after a run, when the run ended without an error.\<close>

definition cell_after :: "error + memory \<Rightarrow> ref \<Rightarrow> nat \<Rightarrow> nat \<Rightarrow> complex option" where
  "cell_after r a iz ir = (case r of Inl e \<Rightarrow> None | Inr m' \<Rightarrow> Some (cget m' a iz ir))"

section \<open>Loads, stores and launches\<close>

lemma cget_cset:
  "cget (cset m a iz ir v) b jz jr = (if a = b \<and> iz = jz \<and> ir = jr then v else cget m b jz jr)"
  by (simp add: cget_def cset_def)

lemma shape_cset:
  "shape0 (complex128_2d (cset m a iz ir v) b) = shape0 (complex128_2d m b)"
  "shape1 (complex128_2d (cset m a iz ir v) b) = shape1 (complex128_2d m b)"
  by (simp_all add: cset_def)

lemma float_cset:
  "float64_2d (cset m a iz ir v) = float64_2d m"
  "float64_1d (cset m a iz ir v) = float64_1d m"
  by (simp_all add: cset_def)

lemma fget_cset: "fget (cset m a iz ir v) b jz jr = fget m b jz jr"
  by (simp add: fget_def float_cset)

lemma vget_cset: "vget (cset m a iz ir v) b jr = vget m b jr"
  by (simp add: vget_def float_cset)

lemma same_layout_refl: "same_layout m m"
  by (simp add: same_layout_def)

lemma same_layout_trans: "same_layout m m1 \<Longrightarrow> same_layout m1 m2 \<Longrightarrow> same_layout m m2"
  by (simp add: same_layout_def)

lemma same_layout_cset: "same_layout m (cset m a iz ir v)"
  by (simp add: same_layout_def shape_cset float_cset)

lemma cin_layout: "same_layout m m' \<Longrightarrow> cin m' as iz ir = cin m as iz ir"
  by (simp add: cin_def same_layout_def)

lemma fin_layout: "same_layout m m' \<Longrightarrow> fin m' as iz ir = fin m as iz ir"
  by (simp add: fin_def same_layout_def)

lemma vin_layout: "same_layout m m' \<Longrightarrow> vin m' as ir = vin m as ir"
  by (simp add: vin_def same_layout_def)

lemma fget_layout: "same_layout m m' \<Longrightarrow> fget m' a iz ir = fget m a iz ir"
  by (simp add: fget_def same_layout_def)

lemma vget_layout: "same_layout m m' \<Longrightarrow> vget m' a ir = vget m a ir"
  by (simp add: vget_def same_layout_def)

lemma cin_fits:
  "cfits m as Nz Nr \<Longrightarrow> int iz < sint Nz \<Longrightarrow> int ir < sint Nr \<Longrightarrow> cin m as iz ir"
  by (induction as) (auto simp: cfits_def cin_def)

lemma fin_fits:
  "ffits m as Nz Nr \<Longrightarrow> int iz < sint Nz \<Longrightarrow> int ir < sint Nr \<Longrightarrow> fin m as iz ir"
  by (induction as) (auto simp: ffits_def fin_def)

lemma cfits_layout: "same_layout m m' \<Longrightarrow> cfits m' as Nz Nr = cfits m as Nz Nr"
  by (simp add: cfits_def same_layout_def)

lemma ffits_layout: "same_layout m m' \<Longrightarrow> ffits m' as Nz Nr = ffits m as Nz Nr"
  by (simp add: ffits_def same_layout_def)

lemma cin_sub: "cin m as iz ir \<Longrightarrow> set bs \<subseteq> set as \<Longrightarrow> cin m bs iz ir"
  by (auto simp: cin_def list_all_iff)

lemma agree_at_refl: "agree_at iz ir m m"
  by (simp add: agree_at_def same_layout_refl)

lemma agree_at_trans: "agree_at iz ir m m1 \<Longrightarrow> agree_at iz ir m1 m2 \<Longrightarrow> agree_at iz ir m m2"
  unfolding agree_at_def using same_layout_trans by auto

lemma agree_at_cget: "agree_at iz ir m m1 \<Longrightarrow> cget m1 a iz ir = cget m a iz ir"
  by (simp add: agree_at_def)

lemma agree_at_fget: "agree_at iz ir m m1 \<Longrightarrow> fget m1 a jz jr = fget m a jz jr"
  using fget_layout [of m m1] by (simp add: agree_at_def)

lemma agree_at_float:
  "agree_at iz ir m m1 \<Longrightarrow> float64_2d m1 = float64_2d m"
  "agree_at iz ir m m1 \<Longrightarrow> float64_1d m1 = float64_1d m"
  by (simp_all add: agree_at_def same_layout_def)

lemma agree_at_cin:
  "agree_at iz ir m m1 \<Longrightarrow> cfits m as Nz Nr \<Longrightarrow> int iz < sint Nz \<Longrightarrow> int ir < sint Nr
     \<Longrightarrow> cin m1 as iz ir"
  using cin_layout [of m m1 as iz ir] by (simp add: agree_at_def cin_fits)

lemma agree_at_fin:
  "agree_at iz ir m m1 \<Longrightarrow> ffits m as Nz Nr \<Longrightarrow> int iz < sint Nz \<Longrightarrow> int ir < sint Nr
     \<Longrightarrow> fin m1 as iz ir"
  using fin_layout [of m m1 as iz ir] by (simp add: agree_at_def fin_fits)

lemma writes_only_at_refl: "writes_only_at iz ir m m"
  by (simp add: writes_only_at_def same_layout_refl)

lemma writes_only_at_trans:
  "writes_only_at iz ir m m1 \<Longrightarrow> writes_only_at iz ir m1 m2 \<Longrightarrow> writes_only_at iz ir m m2"
  unfolding writes_only_at_def using same_layout_trans by auto

lemma writes_only_at_cset: "writes_only_at iz ir m (cset m a iz ir v)"
  by (simp add: writes_only_at_def same_layout_cset cget_cset)

lemma writes_only_at_cset_step:
  "writes_only_at iz ir m m1 \<Longrightarrow> writes_only_at iz ir m (cset m1 a iz ir v)"
  using writes_only_at_trans writes_only_at_cset by blast

lemma writes_only_at_agree:
  "writes_only_at jz jr m m' \<Longrightarrow> (jz, jr) \<noteq> (iz, ir) \<Longrightarrow> agree_at iz ir m m'"
  by (auto simp: writes_only_at_def agree_at_def)

subsection \<open>Threads of a local kernel, in any order\<close>

text \<open>
  The lemmas about \<open>run_threads\<close> hold for every list of distinct positions: what a launch
  leaves at a position is what the thread of that position computes from the values the
  position held before the launch, whichever threads ran before it.
\<close>

lemma run_threads_layout:
  "local_kernel k \<Longrightarrow> run_threads k ts m = Inr m' \<Longrightarrow> same_layout m m'"
proof (induction ts arbitrary: m)
  case Nil
  then show ?case by (simp add: same_layout_refl)
next
  case (Cons t ts)
  from Cons.prems(2) obtain m1 where
    s: "k (fst t) (snd t) m = Inr m1" and r: "run_threads k ts m1 = Inr m'"
    by (auto split: sum.splits)
  from Cons.prems(1) s have "same_layout m m1"
    by (auto simp: local_kernel_def writes_only_at_def)
  moreover from Cons.IH [OF Cons.prems(1) r] have "same_layout m1 m'" .
  ultimately show ?case by (rule same_layout_trans)
qed

lemma run_threads_other:
  "local_kernel k \<Longrightarrow> run_threads k ts m = Inr m' \<Longrightarrow> (iz, ir) \<notin> set ts \<Longrightarrow> agree_at iz ir m m'"
proof (induction ts arbitrary: m)
  case Nil
  then show ?case by (simp add: agree_at_refl)
next
  case (Cons t ts)
  from Cons.prems(2) obtain m1 where
    s: "k (fst t) (snd t) m = Inr m1" and r: "run_threads k ts m1 = Inr m'"
    by (auto split: sum.splits)
  from Cons.prems(3) have ne: "(fst t, snd t) \<noteq> (iz, ir)" and nin: "(iz, ir) \<notin> set ts"
    by auto
  from Cons.prems(1) s have "writes_only_at (fst t) (snd t) m m1"
    by (auto simp: local_kernel_def)
  then have "agree_at iz ir m m1" using ne by (rule writes_only_at_agree)
  moreover from Cons.IH [OF Cons.prems(1) r nin] have "agree_at iz ir m1 m'" .
  ultimately show ?case by (rule agree_at_trans)
qed

lemma run_threads_cell:
  "local_kernel k \<Longrightarrow> run_threads k ts m = Inr m' \<Longrightarrow> distinct ts \<Longrightarrow> (iz, ir) \<in> set ts
     \<Longrightarrow> \<exists>m1 m2. agree_at iz ir m m1 \<and> k iz ir m1 = Inr m2 \<and> agree_at iz ir m2 m'"
proof (induction ts arbitrary: m)
  case Nil
  then show ?case by simp
next
  case (Cons t ts)
  from Cons.prems(2) obtain ma where
    s: "k (fst t) (snd t) m = Inr ma" and r: "run_threads k ts ma = Inr m'"
    by (auto split: sum.splits)
  show ?case
  proof (cases "t = (iz, ir)")
    case True
    with Cons.prems(3) have "(iz, ir) \<notin> set ts" by simp
    from run_threads_other [OF Cons.prems(1) r this] have "agree_at iz ir ma m'" .
    moreover from s True have "k iz ir m = Inr ma" by simp
    ultimately show ?thesis using agree_at_refl by blast
  next
    case False
    with Cons.prems(4) have mem: "(iz, ir) \<in> set ts" by auto
    from Cons.prems(3) have d: "distinct ts" by simp
    from False have ne: "(fst t, snd t) \<noteq> (iz, ir)" by (cases t) auto
    from Cons.prems(1) s have "writes_only_at (fst t) (snd t) m ma"
      by (auto simp: local_kernel_def)
    then have a: "agree_at iz ir m ma" using ne by (rule writes_only_at_agree)
    from Cons.IH [OF Cons.prems(1) r d mem] obtain m1 m2 where
      "agree_at iz ir ma m1" "k iz ir m1 = Inr m2" "agree_at iz ir m2 m'" by blast
    with a show ?thesis using agree_at_trans by blast
  qed
qed

lemma run_threads_total:
  assumes loc: "local_kernel k"
    and ok: "\<And>iz ir m1. same_layout m m1 \<Longrightarrow> \<exists>m2. k iz ir m1 = Inr m2"
  shows "\<exists>m'. run_threads k ts m = Inr m'"
proof -
  have "same_layout m m1 \<Longrightarrow> \<exists>m'. run_threads k ts m1 = Inr m'" for m1
  proof (induction ts arbitrary: m1)
    case Nil
    then show ?case by simp
  next
    case (Cons t ts)
    from ok [OF Cons.prems] obtain m2 where s: "k (fst t) (snd t) m1 = Inr m2" by blast
    with loc have "same_layout m1 m2" by (auto simp: local_kernel_def writes_only_at_def)
    with Cons.prems have "same_layout m m2" by (rule same_layout_trans)
    from Cons.IH [OF this] s show ?case by simp
  qed
  from this [OF same_layout_refl] show ?thesis .
qed

lemma grid_threads_distinct: "distinct (grid_threads g b)"
  by (simp add: grid_threads_def distinct_product)

lemma grid_threads_mem:
  "(iz, ir) \<in> set (grid_threads g b) \<longleftrightarrow> iz < fst g * fst b \<and> ir < snd g * snd b"
  by (auto simp: grid_threads_def)

lemma launch_cell:
  assumes loc: "local_kernel k"
    and total: "\<And>jz jr m1. same_layout m m1 \<Longrightarrow> \<exists>m2. k jz jr m1 = Inr m2"
    and grid: "iz < fst g * fst b" "ir < snd g * snd b"
  shows "\<exists>m' m1 m2. launch k g b m = Inr m' \<and> agree_at iz ir m m1
           \<and> k iz ir m1 = Inr m2 \<and> agree_at iz ir m2 m'"
proof -
  from run_threads_total [OF loc total] obtain m' where
    r: "run_threads k (grid_threads g b) m = Inr m'" by blast
  from grid have "(iz, ir) \<in> set (grid_threads g b)" by (simp add: grid_threads_mem)
  from run_threads_cell [OF loc r grid_threads_distinct this] r show ?thesis
    by (auto simp: launch_def)
qed

lemma launch_outside:
  assumes "local_kernel k" and "launch k g b m = Inr m'"
    and "\<not> (iz < fst g * fst b \<and> ir < snd g * snd b)"
  shows "agree_at iz ir m m'"
  using assms run_threads_other [of k "grid_threads g b" m m' iz ir]
  by (simp add: launch_def grid_threads_mem)

lemma launch_total:
  assumes "local_kernel k"
    and "\<And>jz jr m1. same_layout m m1 \<Longrightarrow> \<exists>m2. k jz jr m1 = Inr m2"
  shows "\<exists>m'. launch k g b m = Inr m'"
  unfolding launch_def using assms by (rule run_threads_total)

lemma launch_unchanged:
  assumes loc: "local_kernel k" and l: "launch k g b m = Inr m'"
    and skip: "\<And>m1. k iz ir m1 = Inr m1"
  shows "agree_at iz ir m m'"
proof (cases "iz < fst g * fst b \<and> ir < snd g * snd b")
  case True
  then have "(iz, ir) \<in> set (grid_threads g b)" by (simp add: grid_threads_mem)
  from run_threads_cell [OF loc l [unfolded launch_def] grid_threads_distinct this]
  obtain m1 m2 where "agree_at iz ir m m1" "k iz ir m1 = Inr m2" "agree_at iz ir m2 m'"
    by blast
  with skip [of m1] show ?thesis by (auto intro: agree_at_trans)
next
  case False
  with loc l show ?thesis by (rule launch_outside)
qed

subsection \<open>Rules for the body of a kernel\<close>

lemma returns_Inr: "P m \<Longrightarrow> returns P (Inr m)"
  by (simp add: returns_def)

lemma returns_Inl: "returns P (Inl e)"
  by (simp add: returns_def)

lemma returns_if: "(b \<Longrightarrow> returns P x) \<Longrightarrow> (\<not> b \<Longrightarrow> returns P y) \<Longrightarrow> returns P (if b then x else y)"
  by simp

lemma returns_Let: "(\<And>x. returns P (f x)) \<Longrightarrow> returns P (Let s f)"
  by (simp add: Let_def)

lemma returnsD: "returns P r \<Longrightarrow> r = Inr m' \<Longrightarrow> P m'"
  by (simp add: returns_def)

lemma wo_Let_mem:
  "writes_only_at iz ir m s \<Longrightarrow> (\<And>x. writes_only_at iz ir m x \<Longrightarrow> writes_only_at iz ir m (f x))
     \<Longrightarrow> writes_only_at iz ir m (Let s f)"
  by (simp add: Let_def)

lemma wo_Let_val:
  "(\<And>x::complex. writes_only_at iz ir m (f x)) \<Longrightarrow> writes_only_at iz ir m (Let s f)"
  by (simp add: Let_def)

lemmas wo_rules = returns_if returns_Let returns_Inr returns_Inl
  wo_Let_mem wo_Let_val writes_only_at_cset_step writes_only_at_refl

lemma local_kernelI:
  "(\<And>iz ir m. returns (writes_only_at iz ir m) (k iz ir m)) \<Longrightarrow> local_kernel k"
  unfolding local_kernel_def by (blast dest: returnsD)

lemma writes_only_arrays_refl: "writes_only_arrays as m m"
  by (simp add: writes_only_arrays_def)

lemma writes_only_arrays_trans:
  "writes_only_arrays as m m1 \<Longrightarrow> writes_only_arrays as m1 m2 \<Longrightarrow> writes_only_arrays as m m2"
  by (simp add: writes_only_arrays_def)

lemma writes_only_arrays_cset:
  "a \<in> set as \<Longrightarrow> writes_only_arrays as m x \<Longrightarrow> writes_only_arrays as m (cset x a iz ir v)"
  by (auto simp: writes_only_arrays_def cset_def)

lemma woa_Let_mem:
  "writes_only_arrays as m s \<Longrightarrow> (\<And>x. writes_only_arrays as m x \<Longrightarrow> writes_only_arrays as m (f x))
     \<Longrightarrow> writes_only_arrays as m (Let s f)"
  by (simp add: Let_def)

lemma woa_Let_val:
  "(\<And>x::complex. writes_only_arrays as m (f x)) \<Longrightarrow> writes_only_arrays as m (Let s f)"
  by (simp add: Let_def)

lemmas woa_rules = returns_if returns_Inr returns_Inl
  woa_Let_mem woa_Let_val writes_only_arrays_cset writes_only_arrays_refl

lemma run_threads_arrays:
  assumes "\<And>iz ir m1. returns (writes_only_arrays as m1) (k iz ir m1)"
    and "run_threads k ts m = Inr m'"
  shows "writes_only_arrays as m m'"
  using assms(2)
proof (induction ts arbitrary: m)
  case Nil
  then show ?case by (simp add: writes_only_arrays_refl)
next
  case (Cons t ts)
  from Cons.prems obtain m1 where
    s: "k (fst t) (snd t) m = Inr m1" and r: "run_threads k ts m1 = Inr m'"
    by (auto split: sum.splits)
  from assms(1) s have "writes_only_arrays as m m1" by (rule returnsD)
  moreover from Cons.IH [OF r] have "writes_only_arrays as m1 m'" .
  ultimately show ?case by (rule writes_only_arrays_trans)
qed

lemma ok_if:
  "(b \<Longrightarrow> \<exists>m'. x = Inr m') \<Longrightarrow> (\<not> b \<Longrightarrow> \<exists>m'. y = Inr m')
     \<Longrightarrow> \<exists>m'::memory. (if b then x else y) = (Inr m' :: error + memory)"
  by simp

lemma ok_Inr: "\<exists>m'::memory. (Inr x :: error + memory) = Inr m'"
  by simp

section \<open>The kernels: local, skipping and total\<close>

lemma cuda_push_rho_local: "local_kernel (cuda_push_rho rho_prev rho_next Nz Nr)"
  by (rule local_kernelI, unfold cuda_push_rho_def, (intro wo_rules | assumption)+)

lemma cuda_filter_scalar_local: "local_kernel (cuda_filter_scalar field filter_array Nz Nr)"
  by (rule local_kernelI, unfold cuda_filter_scalar_def, (intro wo_rules | assumption)+)

lemma cuda_filter_vector_local:
  "local_kernel (cuda_filter_vector fieldr fieldt fieldz filter_array Nz Nr)"
  by (rule local_kernelI, unfold cuda_filter_vector_def, (intro wo_rules | assumption)+)

lemma cuda_correct_currents_local:
  "local_kernel (cuda_correct_currents rho_prev rho_next Jp Jm Jz kz kr inv_k2 j_corr_coef T inv_dt Nz Nr)"
  by (rule local_kernelI, unfold cuda_correct_currents_def, (intro wo_rules | assumption)+)

lemma cuda_push_eb_with_local:
  "local_kernel (cuda_push_eb_with c epsilon_0 mu_0 Ep Em Ez Bp Bm Bz Jp Jm Jz rho_prev rho_next
            rho_prev_coef rho_next_coef j_coef C S_w T T_rho kr kz dt V
            ptcl_feedback use_true_rho Nz Nr)"
  by (rule local_kernelI, unfold cuda_push_eb_with_def, (intro wo_rules | assumption)+)

lemma cuda_push_rho_skip:
  "\<not> (int iz < sint Nz \<and> int ir < sint Nr) \<Longrightarrow>
   cuda_push_rho rho_prev rho_next Nz Nr iz ir m = Inr m"
  by (simp only: cuda_push_rho_def if_False)

lemma cuda_filter_scalar_skip:
  "\<not> (int iz < sint Nz \<and> int ir < sint Nr) \<Longrightarrow>
   cuda_filter_scalar field filter_array Nz Nr iz ir m = Inr m"
  by (simp only: cuda_filter_scalar_def if_False)

lemma cuda_filter_vector_skip:
  "\<not> (int iz < sint Nz \<and> int ir < sint Nr) \<Longrightarrow>
   cuda_filter_vector fieldr fieldt fieldz filter_array Nz Nr iz ir m = Inr m"
  by (simp only: cuda_filter_vector_def if_False)

lemma cuda_correct_currents_skip:
  "\<not> (int iz < sint Nz \<and> int ir < sint Nr) \<Longrightarrow>
   cuda_correct_currents rho_prev rho_next Jp Jm Jz kz kr inv_k2 j_corr_coef T inv_dt Nz Nr iz ir m
     = Inr m"
  by (simp only: cuda_correct_currents_def if_False)

lemma cuda_push_eb_with_skip:
  "\<not> (int iz < sint Nz \<and> int ir < sint Nr) \<Longrightarrow>
   cuda_push_eb_with c epsilon_0 mu_0 Ep Em Ez Bp Bm Bz Jp Jm Jz rho_prev rho_next
            rho_prev_coef rho_next_coef j_coef C S_w T T_rho kr kz dt V
            ptcl_feedback use_true_rho Nz Nr iz ir m = Inr m"
  by (simp only: cuda_push_eb_with_def if_False)

lemma cuda_push_rho_total:
  assumes "cfits m [rho_prev, rho_next] Nz Nr"
  shows "\<exists>m'. cuda_push_rho rho_prev rho_next Nz Nr iz ir m = Inr m'"
  unfolding cuda_push_rho_def using assms cin_fits [of m "[rho_prev, rho_next]" Nz Nr iz ir]
  by (intro ok_if ok_Inr) simp_all

lemma cuda_filter_scalar_total:
  assumes "cfits m [field] Nz Nr" and "ffits m [filter_array] Nz Nr"
  shows "\<exists>m'. cuda_filter_scalar field filter_array Nz Nr iz ir m = Inr m'"
  unfolding cuda_filter_scalar_def
  using assms cin_fits [of m "[field]" Nz Nr iz ir] fin_fits [of m "[filter_array]" Nz Nr iz ir]
  by (intro ok_if ok_Inr) simp_all

lemma cuda_filter_vector_total:
  assumes "cfits m [fieldr, fieldt, fieldz] Nz Nr" and "ffits m [filter_array] Nz Nr"
  shows "\<exists>m'. cuda_filter_vector fieldr fieldt fieldz filter_array Nz Nr iz ir m = Inr m'"
  unfolding cuda_filter_vector_def
  using assms cin_fits [of m "[fieldr, fieldt, fieldz]" Nz Nr iz ir]
    fin_fits [of m "[filter_array]" Nz Nr iz ir]
  by (intro ok_if ok_Inr) simp_all

lemma cuda_correct_currents_total:
  assumes "cfits m [rho_prev, rho_next, Jp, Jm, Jz, j_corr_coef, T] Nz Nr"
    and "ffits m [kz, kr, inv_k2] Nz Nr"
  shows "\<exists>m'. cuda_correct_currents rho_prev rho_next Jp Jm Jz kz kr inv_k2 j_corr_coef T
                 inv_dt Nz Nr iz ir m = Inr m'"
  unfolding cuda_correct_currents_def
  using assms cin_fits [of m "[rho_prev, rho_next, Jp, Jm, Jz, j_corr_coef, T]" Nz Nr iz ir]
    fin_fits [of m "[kz, kr, inv_k2]" Nz Nr iz ir]
  by (intro ok_if ok_Inr) simp_all

lemma cuda_push_eb_with_total:
  assumes "cfits m [Ep, Em, Ez, Bp, Bm, Bz, Jp, Jm, Jz, rho_prev, rho_next,
                      rho_prev_coef, rho_next_coef, j_coef, T, T_rho] Nz Nr"
    and "ffits m [C, S_w, kr, kz] Nz Nr"
  shows "\<exists>m'. cuda_push_eb_with c epsilon_0 mu_0 Ep Em Ez Bp Bm Bz Jp Jm Jz rho_prev rho_next
            rho_prev_coef rho_next_coef j_coef C S_w T T_rho kr kz dt V
            ptcl_feedback use_true_rho Nz Nr iz ir m = Inr m'"
proof (cases "int iz < sint Nz \<and> int ir < sint Nr")
  case True
  with assms have "cin m [Ep, Em, Ez, Bp, Bm, Bz, Jp, Jm, Jz, rho_prev, rho_next,
                      rho_prev_coef, rho_next_coef, j_coef, T, T_rho] iz ir"
    and f: "fin m [C, S_w, kr, kz] iz ir"
    by (simp_all add: cin_fits fin_fits)
  then have "cin m [Ep, Em, Ez, Bp, Bm, Bz, Jp, Jm, Jz, rho_prev_coef, rho_next_coef, j_coef, T] iz ir"
    "cin m [rho_prev, rho_next] iz ir" "cin m [T_rho] iz ir" "cin m [Ep, Em, Ez, Bp, Bm, Bz, T] iz ir"
    by (simp_all add: cin_def)
  with True f show ?thesis
    unfolding cuda_push_eb_with_def
    by (intro ok_if ok_Inr) (simp_all split: if_splits)
next
  case False
  then show ?thesis by (blast intro: cuda_push_eb_with_skip)
qed

lemma cuda_push_eb_with_launch_total:
  assumes "cfits m [Ep, Em, Ez, Bp, Bm, Bz, Jp, Jm, Jz, rho_prev, rho_next,
                      rho_prev_coef, rho_next_coef, j_coef, T, T_rho] Nz Nr"
    and "ffits m [C, S_w, kr, kz] Nz Nr"
  shows "\<exists>m'. launch (cuda_push_eb_with c epsilon_0 mu_0 Ep Em Ez Bp Bm Bz Jp Jm Jz rho_prev rho_next
                    rho_prev_coef rho_next_coef j_coef C S_w T T_rho kr kz dt V
                    ptcl_feedback use_true_rho Nz Nr) griddim blockdim m = Inr m'"
proof (rule launch_total [OF cuda_push_eb_with_local])
  fix jz jr m1
  assume "same_layout m m1"
  with assms show "\<exists>m2. cuda_push_eb_with c epsilon_0 mu_0 Ep Em Ez Bp Bm Bz Jp Jm Jz rho_prev rho_next
                    rho_prev_coef rho_next_coef j_coef C S_w T T_rho kr kz dt V
                    ptcl_feedback use_true_rho Nz Nr jz jr m1 = Inr m2"
    by (intro cuda_push_eb_with_total) (simp_all add: cfits_layout ffits_layout)
qed

lemma cuda_push_eb_with_arrays:
  "returns (writes_only_arrays [Ep, Em, Ez, Bp, Bm, Bz] m)
     (cuda_push_eb_with c epsilon_0 mu_0 Ep Em Ez Bp Bm Bz Jp Jm Jz rho_prev rho_next
        rho_prev_coef rho_next_coef j_coef C S_w T T_rho kr kz dt V
        ptcl_feedback use_true_rho Nz Nr iz ir m)"
  unfolding cuda_push_eb_with_def
  by (intro woa_rules | assumption | simp)+

section \<open>The field push\<close>

lemma cuda_push_eb_with_feedback_cell:
  assumes fits: "cfits m [Ep, Em, Ez, Bp, Bm, Bz, Jp, Jm, Jz, rho_prev, rho_next,
                      rho_prev_coef, rho_next_coef, j_coef, T, T_rho] Nz Nr"
      "ffits m [C, S_w, kr, kz] Nz Nr"
    and na: "distinct [Ep, Em, Ez, Bp, Bm, Bz]"
      "set [Ep, Em, Ez, Bp, Bm, Bz]
         \<inter> set [Jp, Jm, Jz, rho_prev, rho_next, rho_prev_coef, rho_next_coef, j_coef, T, T_rho] = {}"
    and fb: "ptcl_feedback \<noteq> 0"
    and cell: "int iz < sint Nz" "int ir < sint Nr"
    and grid: "iz < fst griddim * fst blockdim" "ir < snd griddim * snd blockdim"
  shows "\<exists>m'. launch (cuda_push_eb_with c epsilon_0 mu_0 Ep Em Ez Bp Bm Bz Jp Jm Jz rho_prev rho_next
                    rho_prev_coef rho_next_coef j_coef C S_w T T_rho kr kz dt V
                    ptcl_feedback use_true_rho Nz Nr) griddim blockdim m = Inr m'
     \<and> (let rho_diff =
               (if use_true_rho \<noteq> 0 then
                  cget m rho_next_coef iz ir * cget m rho_next iz ir
                  - cget m rho_prev_coef iz ir * cget m rho_prev iz ir
                else
                  (cget m T iz ir * cget m rho_next_coef iz ir - cget m rho_prev_coef iz ir)
                    * of_real epsilon_0
                    * (of_real (fget m kr iz ir) * (cget m Ep iz ir - cget m Em iz ir)
                       + \<i> * of_real (fget m kz iz ir) * cget m Ez iz ir)
                  + cget m T_rho iz ir * cget m rho_next_coef iz ir * of_real dt
                    * (of_real (fget m kr iz ir) * (cget m Jp iz ir - cget m Jm iz ir)
                       + \<i> * of_real (fget m kz iz ir) * cget m Jz iz ir))
         in cget m' Ep iz ir =
              cget m T iz ir * of_real (fget m C iz ir) * cget m Ep iz ir
              + of_real (0.5 * fget m kr iz ir) * rho_diff
              + cget m j_coef iz ir * \<i> * of_real (fget m kz iz ir) * of_real V * cget m Jp iz ir
              + of_real (c2 c) * cget m T iz ir * of_real (fget m S_w iz ir)
                * (- \<i> * of_real 0.5 * of_real (fget m kr iz ir) * cget m Bz iz ir
                   + of_real (fget m kz iz ir) * cget m Bp iz ir - of_real mu_0 * cget m Jp iz ir)
          \<and> cget m' Em iz ir =
              cget m T iz ir * of_real (fget m C iz ir) * cget m Em iz ir
              - of_real (0.5 * fget m kr iz ir) * rho_diff
              + cget m j_coef iz ir * \<i> * of_real (fget m kz iz ir) * of_real V * cget m Jm iz ir
              + of_real (c2 c) * cget m T iz ir * of_real (fget m S_w iz ir)
                * (- \<i> * of_real 0.5 * of_real (fget m kr iz ir) * cget m Bz iz ir
                   - of_real (fget m kz iz ir) * cget m Bm iz ir - of_real mu_0 * cget m Jm iz ir)
          \<and> cget m' Ez iz ir =
              cget m T iz ir * of_real (fget m C iz ir) * cget m Ez iz ir
              - \<i> * of_real (fget m kz iz ir) * rho_diff
              + cget m j_coef iz ir * \<i> * of_real (fget m kz iz ir) * of_real V * cget m Jz iz ir
              + of_real (c2 c) * cget m T iz ir * of_real (fget m S_w iz ir)
                * (\<i> * of_real (fget m kr iz ir) * cget m Bp iz ir
                   + \<i> * of_real (fget m kr iz ir) * cget m Bm iz ir - of_real mu_0 * cget m Jz iz ir))
     \<and> cget m' Bp iz ir =
          cget m T iz ir * of_real (fget m C iz ir) * cget m Bp iz ir
          - cget m T iz ir * of_real (fget m S_w iz ir)
            * (- \<i> * of_real 0.5 * of_real (fget m kr iz ir) * cget m Ez iz ir
               + of_real (fget m kz iz ir) * cget m Ep iz ir)
          + cget m j_coef iz ir
            * (- \<i> * of_real 0.5 * of_real (fget m kr iz ir) * cget m Jz iz ir
               + of_real (fget m kz iz ir) * cget m Jp iz ir)
     \<and> cget m' Bm iz ir =
          cget m T iz ir * of_real (fget m C iz ir) * cget m Bm iz ir
          - cget m T iz ir * of_real (fget m S_w iz ir)
            * (- \<i> * of_real 0.5 * of_real (fget m kr iz ir) * cget m Ez iz ir
               - of_real (fget m kz iz ir) * cget m Em iz ir)
          + cget m j_coef iz ir
            * (- \<i> * of_real 0.5 * of_real (fget m kr iz ir) * cget m Jz iz ir
               - of_real (fget m kz iz ir) * cget m Jm iz ir)
     \<and> cget m' Bz iz ir =
          cget m T iz ir * of_real (fget m C iz ir) * cget m Bz iz ir
          - cget m T iz ir * of_real (fget m S_w iz ir)
            * (\<i> * of_real (fget m kr iz ir) * cget m Ep iz ir
               + \<i> * of_real (fget m kr iz ir) * cget m Em iz ir)
          + cget m j_coef iz ir
            * (\<i> * of_real (fget m kr iz ir) * cget m Jp iz ir
               + \<i> * of_real (fget m kr iz ir) * cget m Jm iz ir)"
  (is "\<exists>m'. _ \<and> ?P m'")
proof -
  let ?k = "cuda_push_eb_with c epsilon_0 mu_0 Ep Em Ez Bp Bm Bz Jp Jm Jz rho_prev rho_next
              rho_prev_coef rho_next_coef j_coef C S_w T T_rho kr kz dt V
              ptcl_feedback use_true_rho Nz Nr"
  have tot: "\<exists>m2. ?k jz jr m1 = Inr m2" if "same_layout m m1" for jz jr m1
    using fits that by (intro cuda_push_eb_with_total) (simp_all add: cfits_layout ffits_layout)
  from launch_cell [OF cuda_push_eb_with_local tot grid] obtain m' m1 m2 where
    l: "launch ?k griddim blockdim m = Inr m'"
    and a1: "agree_at iz ir m m1" and t: "?k iz ir m1 = Inr m2" and a2: "agree_at iz ir m2 m'"
    by blast
  from a1 fits cell have "cin m1 [Ep, Em, Ez, Bp, Bm, Bz, Jp, Jm, Jz, rho_prev, rho_next,
                      rho_prev_coef, rho_next_coef, j_coef, T, T_rho] iz ir"
    and inf: "fin m1 [C, S_w, kr, kz] iz ir"
    by (auto intro: agree_at_cin agree_at_fin)
  then have inb: "cin m1 [Ep, Em, Ez, Bp, Bm, Bz, Jp, Jm, Jz, rho_prev_coef, rho_next_coef, j_coef, T] iz ir"
    "cin m1 [rho_prev, rho_next] iz ir" "cin m1 [T_rho] iz ir"
    by (simp_all add: cin_def)
  from na have na': "distinct (rev [Ep, Em, Ez, Bp, Bm, Bz])"
    "\<forall>a\<in>set [Ep, Em, Ez, Bp, Bm, Bz].
       a \<notin> set [Jp, Jm, Jz, rho_prev, rho_next, rho_prev_coef, rho_next_coef, j_coef, T, T_rho]"
    by auto
  have "?P m2"
  proof (cases "use_true_rho \<noteq> 0")
    case True
    with cell fb inb inf na na' t [symmetric] show ?thesis
      by (simp add: cuda_push_eb_with_def Let_def cget_cset fget_cset
            agree_at_cget [OF a1] agree_at_fget [OF a1])
  next
    case False
    with cell fb inb inf na na' t [symmetric] show ?thesis
      by (simp add: cuda_push_eb_with_def Let_def cget_cset fget_cset
            agree_at_cget [OF a1] agree_at_fget [OF a1])
  qed
  then have "?P m'"
    by (simp add: agree_at_cget [OF a2])
  with l show ?thesis by blast
qed

lemma cuda_push_eb_with_vacuum_cell:
  assumes fits: "cfits m [Ep, Em, Ez, Bp, Bm, Bz, Jp, Jm, Jz, rho_prev, rho_next,
                      rho_prev_coef, rho_next_coef, j_coef, T, T_rho] Nz Nr"
      "ffits m [C, S_w, kr, kz] Nz Nr"
    and na: "distinct [Ep, Em, Ez, Bp, Bm, Bz]" "T \<notin> set [Ep, Em, Ez, Bp, Bm, Bz]"
    and fb: "ptcl_feedback = 0"
    and cell: "int iz < sint Nz" "int ir < sint Nr"
    and grid: "iz < fst griddim * fst blockdim" "ir < snd griddim * snd blockdim"
  shows "\<exists>m'. launch (cuda_push_eb_with c epsilon_0 mu_0 Ep Em Ez Bp Bm Bz Jp Jm Jz rho_prev rho_next
                    rho_prev_coef rho_next_coef j_coef C S_w T T_rho kr kz dt V
                    ptcl_feedback use_true_rho Nz Nr) griddim blockdim m = Inr m'
     \<and> cget m' Ep iz ir =
          cget m T iz ir * of_real (fget m C iz ir) * cget m Ep iz ir
          + of_real (c2 c) * cget m T iz ir * of_real (fget m S_w iz ir)
            * (- \<i> * of_real 0.5 * of_real (fget m kr iz ir) * cget m Bz iz ir
               + of_real (fget m kz iz ir) * cget m Bp iz ir)
     \<and> cget m' Em iz ir =
          cget m T iz ir * of_real (fget m C iz ir) * cget m Em iz ir
          + of_real (c2 c) * cget m T iz ir * of_real (fget m S_w iz ir)
            * (- \<i> * of_real 0.5 * of_real (fget m kr iz ir) * cget m Bz iz ir
               - of_real (fget m kz iz ir) * cget m Bm iz ir)
     \<and> cget m' Ez iz ir =
          cget m T iz ir * of_real (fget m C iz ir) * cget m Ez iz ir
          + of_real (c2 c) * cget m T iz ir * of_real (fget m S_w iz ir)
            * (\<i> * of_real (fget m kr iz ir) * cget m Bp iz ir
               + \<i> * of_real (fget m kr iz ir) * cget m Bm iz ir)
     \<and> cget m' Bp iz ir =
          cget m T iz ir * of_real (fget m C iz ir) * cget m Bp iz ir
          - cget m T iz ir * of_real (fget m S_w iz ir)
            * (- \<i> * of_real 0.5 * of_real (fget m kr iz ir) * cget m Ez iz ir
               + of_real (fget m kz iz ir) * cget m Ep iz ir)
     \<and> cget m' Bm iz ir =
          cget m T iz ir * of_real (fget m C iz ir) * cget m Bm iz ir
          - cget m T iz ir * of_real (fget m S_w iz ir)
            * (- \<i> * of_real 0.5 * of_real (fget m kr iz ir) * cget m Ez iz ir
               - of_real (fget m kz iz ir) * cget m Em iz ir)
     \<and> cget m' Bz iz ir =
          cget m T iz ir * of_real (fget m C iz ir) * cget m Bz iz ir
          - cget m T iz ir * of_real (fget m S_w iz ir)
            * (\<i> * of_real (fget m kr iz ir) * cget m Ep iz ir
               + \<i> * of_real (fget m kr iz ir) * cget m Em iz ir)"
  (is "\<exists>m'. _ \<and> ?P m'")
proof -
  let ?k = "cuda_push_eb_with c epsilon_0 mu_0 Ep Em Ez Bp Bm Bz Jp Jm Jz rho_prev rho_next
              rho_prev_coef rho_next_coef j_coef C S_w T T_rho kr kz dt V
              ptcl_feedback use_true_rho Nz Nr"
  have tot: "\<exists>m2. ?k jz jr m1 = Inr m2" if "same_layout m m1" for jz jr m1
    using fits that by (intro cuda_push_eb_with_total) (simp_all add: cfits_layout ffits_layout)
  from launch_cell [OF cuda_push_eb_with_local tot grid] obtain m' m1 m2 where
    l: "launch ?k griddim blockdim m = Inr m'"
    and a1: "agree_at iz ir m m1" and t: "?k iz ir m1 = Inr m2" and a2: "agree_at iz ir m2 m'"
    by blast
  from a1 fits cell have "cin m1 [Ep, Em, Ez, Bp, Bm, Bz, Jp, Jm, Jz, rho_prev, rho_next,
                      rho_prev_coef, rho_next_coef, j_coef, T, T_rho] iz ir"
    and inf: "fin m1 [C, S_w, kr, kz] iz ir"
    by (auto intro: agree_at_cin agree_at_fin)
  then have inb: "cin m1 [Ep, Em, Ez, Bp, Bm, Bz, T] iz ir"
    by (simp_all add: cin_def)
  from na have na': "distinct (rev [Ep, Em, Ez, Bp, Bm, Bz])" "\<forall>a\<in>set [Ep, Em, Ez, Bp, Bm, Bz]. a \<noteq> T"
    by auto
  have "?P m2"
    using cell fb inb inf na na' t [symmetric]
    by (simp add: cuda_push_eb_with_def Let_def cget_cset fget_cset
          agree_at_cget [OF a1] agree_at_fget [OF a1])
  then have "?P m'"
    by (simp add: agree_at_cget [OF a2])
  with l show ?thesis by blast
qed

text \<open>
  Claim C1. With \<open>ptcl_feedback\<close> and \<open>use_true_rho\<close> true, a launch of the field push on
  arrays that do not overlap leaves, at every cell inside \<open>Nz\<close> by \<open>Nr\<close> that it covers, the
  electric field the formulas give: \<open>rho_diff = rho_next_coef*rho_next - rho_prev_coef*rho_prev\<close>
  and \<open>Ep\<close>, \<open>Em\<close>, \<open>Ez\<close> as stated, every value on the right read before the launch.
\<close>

theorem push_eb_true_rho_electric_field:
  assumes fits: "cfits m [Ep, Em, Ez, Bp, Bm, Bz, Jp, Jm, Jz, rho_prev, rho_next,
                      rho_prev_coef, rho_next_coef, j_coef, T, T_rho] Nz Nr"
      "ffits m [C, S_w, kr, kz] Nz Nr"
    and na: "distinct [Ep, Em, Ez, Bp, Bm, Bz]"
      "set [Ep, Em, Ez, Bp, Bm, Bz]
         \<inter> set [Jp, Jm, Jz, rho_prev, rho_next, rho_prev_coef, rho_next_coef, j_coef, T, T_rho] = {}"
    and fb: "ptcl_feedback \<noteq> 0" and tr: "use_true_rho \<noteq> 0"
    and cell: "int iz < sint Nz" "int ir < sint Nr"
    and grid: "iz < fst griddim * fst blockdim" "ir < snd griddim * snd blockdim"
  shows "\<exists>m'. launch (cuda_push_eb_with c epsilon_0 mu_0 Ep Em Ez Bp Bm Bz Jp Jm Jz rho_prev rho_next
                    rho_prev_coef rho_next_coef j_coef C S_w T T_rho kr kz dt V
                    ptcl_feedback use_true_rho Nz Nr) griddim blockdim m = Inr m'
     \<and> (let rho_diff = cget m rho_next_coef iz ir * cget m rho_next iz ir
                        - cget m rho_prev_coef iz ir * cget m rho_prev iz ir
         in cget m' Ep iz ir =
              cget m T iz ir * of_real (fget m C iz ir) * cget m Ep iz ir
              + of_real 0.5 * of_real (fget m kr iz ir) * rho_diff
              + cget m j_coef iz ir * \<i> * of_real (fget m kz iz ir) * of_real V * cget m Jp iz ir
              + of_real (c ^ 2) * cget m T iz ir * of_real (fget m S_w iz ir)
                * (- \<i> * of_real 0.5 * of_real (fget m kr iz ir) * cget m Bz iz ir
                   + of_real (fget m kz iz ir) * cget m Bp iz ir - of_real mu_0 * cget m Jp iz ir)
          \<and> cget m' Em iz ir =
              cget m T iz ir * of_real (fget m C iz ir) * cget m Em iz ir
              - of_real 0.5 * of_real (fget m kr iz ir) * rho_diff
              + cget m j_coef iz ir * \<i> * of_real (fget m kz iz ir) * of_real V * cget m Jm iz ir
              + of_real (c ^ 2) * cget m T iz ir * of_real (fget m S_w iz ir)
                * (- \<i> * of_real 0.5 * of_real (fget m kr iz ir) * cget m Bz iz ir
                   - of_real (fget m kz iz ir) * cget m Bm iz ir - of_real mu_0 * cget m Jm iz ir)
          \<and> cget m' Ez iz ir =
              cget m T iz ir * of_real (fget m C iz ir) * cget m Ez iz ir
              - \<i> * of_real (fget m kz iz ir) * rho_diff
              + cget m j_coef iz ir * \<i> * of_real (fget m kz iz ir) * of_real V * cget m Jz iz ir
              + of_real (c ^ 2) * cget m T iz ir * of_real (fget m S_w iz ir)
                * (\<i> * of_real (fget m kr iz ir) * (cget m Bp iz ir + cget m Bm iz ir)
                   - of_real mu_0 * cget m Jz iz ir))"
  using tr cuda_push_eb_with_feedback_cell [OF fits na fb cell grid, of c epsilon_0 mu_0 dt V use_true_rho]
  apply (simp only: Let_def if_True simp_thms)
  apply (elim exE conjE)
  apply (intro exI conjI, assumption)
    apply (simp_all (no_asm_simp) add: c2_def algebra_simps)
  done

theorem push_eb_true_rho_electric_field_witness:
  "cfits example_memory [0, 1, 2, 3, 4, 5, 6, 7, 8, 9, 10, 11, 12, 13, 14, 15] 2 2
   \<and> ffits example_memory [0, 1, 2, 3] 2 2
   \<and> distinct [0, 1, 2, 3, 4, 5 :: ref]
   \<and> set [0, 1, 2, 3, 4, 5 :: ref] \<inter> set [6, 7, 8, 9, 10, 11, 12, 13, 14, 15] = {}
   \<and> (1 :: int8) \<noteq> 0 \<and> (1 :: int8) \<noteq> 0
   \<and> int 1 < sint (2 :: int32) \<and> int 0 < sint (2 :: int32)
   \<and> (1 :: nat) < fst (1 :: nat, 1 :: nat) * fst (2 :: nat, 2 :: nat)
   \<and> (0 :: nat) < snd (1 :: nat, 1 :: nat) * snd (2 :: nat, 2 :: nat)
   \<and> (\<exists>m'. launch (cuda_push_eb_with 2 1 3 0 1 2 3 4 5 6 7 8 9 10 11 12 13 0 1 14 15 2 3 1 5
                      1 1 2 2) (1, 1) (2, 2) example_memory = Inr m'
          \<and> cget m' 0 1 0 = Complex (- 3615 / 4) (317 / 2)
          \<and> cget m' 1 1 0 = Complex (- 5829 / 4) (143 / 2)
          \<and> cget m' 2 1 0 = Complex (- 1478) 438)"
  using push_eb_true_rho_electric_field
    [where m = example_memory and Ep = 0 and Em = 1 and Ez = 2 and Bp = 3 and Bm = 4 and Bz = 5
       and Jp = 6 and Jm = 7 and Jz = 8 and rho_prev = 9 and rho_next = 10
       and rho_prev_coef = 11 and rho_next_coef = 12 and j_coef = 13 and T = 14 and T_rho = 15
       and C = 0 and S_w = 1 and kr = 2 and kz = 3 and Nz = 2 and Nr = 2
       and ptcl_feedback = 1 and use_true_rho = 1 and iz = 1 and ir = 0
       and griddim = "(1, 1)" and blockdim = "(2, 2)"
       and c = 2 and ?epsilon_0.0 = 1 and ?mu_0.0 = 3 and dt = 1 and V = 5]
  by (auto simp: cfits_def ffits_def example_memory_def uniform_memory_def cget_def fget_def
        Let_def complex_eq_iff)

text \<open>
  Claim C2. With particle feedback, the launch of the field push leaves at every covered
  cell inside \<open>Nz\<close> by \<open>Nr\<close> the magnetic field the formulas give, where the electric field
  on the right is the one the cell held before the launch, not the one the same launch
  writes.
\<close>

theorem push_eb_magnetic_field_reads_old_E:
  assumes fits: "cfits m [Ep, Em, Ez, Bp, Bm, Bz, Jp, Jm, Jz, rho_prev, rho_next,
                      rho_prev_coef, rho_next_coef, j_coef, T, T_rho] Nz Nr"
      "ffits m [C, S_w, kr, kz] Nz Nr"
    and na: "distinct [Ep, Em, Ez, Bp, Bm, Bz]"
      "set [Ep, Em, Ez, Bp, Bm, Bz]
         \<inter> set [Jp, Jm, Jz, rho_prev, rho_next, rho_prev_coef, rho_next_coef, j_coef, T, T_rho] = {}"
    and fb: "ptcl_feedback \<noteq> 0"
    and cell: "int iz < sint Nz" "int ir < sint Nr"
    and grid: "iz < fst griddim * fst blockdim" "ir < snd griddim * snd blockdim"
  shows "\<exists>m'. launch (cuda_push_eb_with c epsilon_0 mu_0 Ep Em Ez Bp Bm Bz Jp Jm Jz rho_prev rho_next
                    rho_prev_coef rho_next_coef j_coef C S_w T T_rho kr kz dt V
                    ptcl_feedback use_true_rho Nz Nr) griddim blockdim m = Inr m'
     \<and> (let Ep_old = cget m Ep iz ir; Em_old = cget m Em iz ir; Ez_old = cget m Ez iz ir
         in cget m' Bp iz ir =
              cget m T iz ir * of_real (fget m C iz ir) * cget m Bp iz ir
              - cget m T iz ir * of_real (fget m S_w iz ir)
                * (- \<i> * of_real 0.5 * of_real (fget m kr iz ir) * Ez_old
                   + of_real (fget m kz iz ir) * Ep_old)
              + cget m j_coef iz ir
                * (- \<i> * of_real 0.5 * of_real (fget m kr iz ir) * cget m Jz iz ir
                   + of_real (fget m kz iz ir) * cget m Jp iz ir)
          \<and> cget m' Bm iz ir =
              cget m T iz ir * of_real (fget m C iz ir) * cget m Bm iz ir
              - cget m T iz ir * of_real (fget m S_w iz ir)
                * (- \<i> * of_real 0.5 * of_real (fget m kr iz ir) * Ez_old
                   - of_real (fget m kz iz ir) * Em_old)
              + cget m j_coef iz ir
                * (- \<i> * of_real 0.5 * of_real (fget m kr iz ir) * cget m Jz iz ir
                   - of_real (fget m kz iz ir) * cget m Jm iz ir)
          \<and> cget m' Bz iz ir =
              cget m T iz ir * of_real (fget m C iz ir) * cget m Bz iz ir
              - cget m T iz ir * of_real (fget m S_w iz ir)
                * (\<i> * of_real (fget m kr iz ir) * Ep_old
                   + \<i> * of_real (fget m kr iz ir) * Em_old)
              + cget m j_coef iz ir
                * (\<i> * of_real (fget m kr iz ir) * cget m Jp iz ir
                   + \<i> * of_real (fget m kr iz ir) * cget m Jm iz ir))"
  using cuda_push_eb_with_feedback_cell [OF fits na fb cell grid, of c epsilon_0 mu_0 dt V use_true_rho]
  apply (simp only: Let_def)
  apply (elim exE conjE)
  apply (intro exI conjI, assumption)
    apply (simp_all (no_asm_simp))
  done

theorem push_eb_magnetic_field_reads_old_E_witness:
  "cfits example_memory [0, 1, 2, 3, 4, 5, 6, 7, 8, 9, 10, 11, 12, 13, 14, 15] 2 2
   \<and> ffits example_memory [0, 1, 2, 3] 2 2
   \<and> distinct [0, 1, 2, 3, 4, 5 :: ref]
   \<and> set [0, 1, 2, 3, 4, 5 :: ref] \<inter> set [6, 7, 8, 9, 10, 11, 12, 13, 14, 15] = {}
   \<and> (1 :: int8) \<noteq> 0
   \<and> int 1 < sint (2 :: int32) \<and> int 0 < sint (2 :: int32)
   \<and> (1 :: nat) < fst (1 :: nat, 1 :: nat) * fst (2 :: nat, 2 :: nat)
   \<and> (0 :: nat) < snd (1 :: nat, 1 :: nat) * snd (2 :: nat, 2 :: nat)
   \<and> (\<exists>m'. launch (cuda_push_eb_with 2 1 3 0 1 2 3 4 5 6 7 8 9 10 11 12 13 0 1 14 15 2 3 1 5
                      1 1 2 2) (1, 1) (2, 2) example_memory = Inr m'
          \<and> cget m' 3 1 0 = Complex (481 / 4) 3
          \<and> cget m' 4 1 0 = Complex (- 83 / 4) (- 6)
          \<and> cget m' 5 1 0 = Complex 64 (193 / 2))"
  using push_eb_magnetic_field_reads_old_E
    [where m = example_memory and Ep = 0 and Em = 1 and Ez = 2 and Bp = 3 and Bm = 4 and Bz = 5
       and Jp = 6 and Jm = 7 and Jz = 8 and rho_prev = 9 and rho_next = 10
       and rho_prev_coef = 11 and rho_next_coef = 12 and j_coef = 13 and T = 14 and T_rho = 15
       and C = 0 and S_w = 1 and kr = 2 and kz = 3 and Nz = 2 and Nr = 2
       and ptcl_feedback = 1 and use_true_rho = 1 and iz = 1 and ir = 0
       and griddim = "(1, 1)" and blockdim = "(2, 2)"
       and c = 2 and ?epsilon_0.0 = 1 and ?mu_0.0 = 3 and dt = 1 and V = 5]
  by (auto simp: cfits_def ffits_def example_memory_def uniform_memory_def cget_def fget_def
        Let_def complex_eq_iff)

section \<open>The current correction\<close>

lemma cuda_correct_currents_cell:
  assumes fits: "cfits m [rho_prev, rho_next, Jp, Jm, Jz, j_corr_coef, T] Nz Nr"
      "ffits m [kz, kr, inv_k2] Nz Nr"
    and na: "distinct [Jp, Jm, Jz]"
      "set [Jp, Jm, Jz] \<inter> set [rho_prev, rho_next, j_corr_coef, T] = {}"
    and cell: "int iz < sint Nz" "int ir < sint Nr"
    and grid: "iz < fst griddim * fst blockdim" "ir < snd griddim * snd blockdim"
  shows "\<exists>m'. launch (cuda_correct_currents rho_prev rho_next Jp Jm Jz kz kr inv_k2 j_corr_coef T
                    inv_dt Nz Nr) griddim blockdim m = Inr m'
           \<and> (let F = complex_of_real (- fget m inv_k2 iz ir)
                       * (cget m j_corr_coef iz ir
                            * (cget m rho_next iz ir - cget m rho_prev iz ir * cget m T iz ir)
                          + \<i> * complex_of_real (fget m kz iz ir) * cget m Jz iz ir
                          + complex_of_real (fget m kr iz ir) * (cget m Jp iz ir - cget m Jm iz ir))
               in cget m' Jp iz ir = cget m Jp iz ir + complex_of_real (0.5 * fget m kr iz ir) * F
                \<and> cget m' Jm iz ir = cget m Jm iz ir + complex_of_real (- 0.5 * fget m kr iz ir) * F
                \<and> cget m' Jz iz ir = cget m Jz iz ir + - \<i> * complex_of_real (fget m kz iz ir) * F
                \<and> (\<forall>a. a \<notin> {Jp, Jm, Jz} \<longrightarrow> cget m' a iz ir = cget m a iz ir))
           \<and> float64_2d m' = float64_2d m \<and> float64_1d m' = float64_1d m"
  (is "\<exists>m'. _ \<and> ?P m'")
proof -
  let ?k = "cuda_correct_currents rho_prev rho_next Jp Jm Jz kz kr inv_k2 j_corr_coef T inv_dt Nz Nr"
  have tot: "\<exists>m2. ?k jz jr m1 = Inr m2" if "same_layout m m1" for jz jr m1
    using fits that by (intro cuda_correct_currents_total) (simp_all add: cfits_layout ffits_layout)
  from launch_cell [OF cuda_correct_currents_local tot grid] obtain m' m1 m2 where
    l: "launch ?k griddim blockdim m = Inr m'"
    and a1: "agree_at iz ir m m1" and t: "?k iz ir m1 = Inr m2" and a2: "agree_at iz ir m2 m'"
    by blast
  from a1 fits cell have inb: "cin m1 [rho_prev, rho_next, Jp, Jm, Jz, j_corr_coef, T] iz ir"
    "fin m1 [kz, kr, inv_k2] iz ir"
    by (auto intro: agree_at_cin agree_at_fin)
  from na have na': "distinct (rev [Jp, Jm, Jz])"
    "\<forall>a\<in>set [Jp, Jm, Jz]. a \<notin> set [rho_prev, rho_next, j_corr_coef, T]"
    by auto
  have "?P m2"
    using cell inb na na' t [symmetric]
    by (simp add: cuda_correct_currents_def Let_def cget_cset fget_cset
          float_cset agree_at_cget [OF a1] agree_at_fget [OF a1] agree_at_float [OF a1])
  then have "?P m'"
    by (simp add: agree_at_cget [OF a2] agree_at_float [OF a2])
  with l show ?thesis by blast
qed

lemma residual_after_correction:
  fixes X Jp Jm Jz F :: complex and kz kr :: real
  shows "X + \<i> * of_real kz * (Jz + - \<i> * of_real kz * F)
           + of_real kr * ((Jp + of_real (0.5 * kr) * F) - (Jm + of_real (- 0.5 * kr) * F))
         = (X + \<i> * of_real kz * Jz + of_real kr * (Jp - Jm)) + of_real (kz ^ 2 + kr ^ 2) * F"
  by (simp add: complex_eq_iff algebra_simps power2_eq_square)

lemma residual_cancels:
  fixes R :: complex and a kz kr :: real
  assumes "a * (kz ^ 2 + kr ^ 2) = 1"
  shows "R + of_real (kz ^ 2 + kr ^ 2) * (of_real (- a) * R) = 0"
proof -
  have "of_real (kz ^ 2 + kr ^ 2) * (of_real (- a) * R) = - (of_real (a * (kz ^ 2 + kr ^ 2)) * R)"
    by (simp only: of_real_mult of_real_minus) (simp add: algebra_simps)
  with assms show ?thesis by simp
qed

text \<open>
  Claim C3. After a launch of the current correction on arrays that do not overlap, at every
  cell inside \<open>Nz\<close> by \<open>Nr\<close> that the launch covers: with \<open>F\<close> computed from the values the
  cell held before the launch, \<open>Jp\<close> has grown by \<open>0.5*kr*F\<close>, \<open>Jm\<close> by \<open>-0.5*kr*F\<close> and
  \<open>Jz\<close> by \<open>-i*kz*F\<close>; every other complex array holds its old value at the cell, and the
  real arrays are unchanged.
\<close>

theorem correct_currents_update:
  assumes fits: "cfits m [rho_prev, rho_next, Jp, Jm, Jz, j_corr_coef, T] Nz Nr"
      "ffits m [kz, kr, inv_k2] Nz Nr"
    and na: "distinct [Jp, Jm, Jz]"
      "set [Jp, Jm, Jz] \<inter> set [rho_prev, rho_next, j_corr_coef, T] = {}"
    and cell: "int iz < sint Nz" "int ir < sint Nr"
    and grid: "iz < fst griddim * fst blockdim" "ir < snd griddim * snd blockdim"
  shows "\<exists>m'. launch (cuda_correct_currents rho_prev rho_next Jp Jm Jz kz kr inv_k2 j_corr_coef T
                    inv_dt Nz Nr) griddim blockdim m = Inr m'
           \<and> (let F = - of_real (fget m inv_k2 iz ir)
                       * (cget m j_corr_coef iz ir
                            * (cget m rho_next iz ir - cget m rho_prev iz ir * cget m T iz ir)
                          + \<i> * of_real (fget m kz iz ir) * cget m Jz iz ir
                          + of_real (fget m kr iz ir) * (cget m Jp iz ir - cget m Jm iz ir))
               in cget m' Jp iz ir = cget m Jp iz ir + of_real 0.5 * of_real (fget m kr iz ir) * F
                \<and> cget m' Jm iz ir = cget m Jm iz ir + - of_real 0.5 * of_real (fget m kr iz ir) * F
                \<and> cget m' Jz iz ir = cget m Jz iz ir + - \<i> * of_real (fget m kz iz ir) * F)
           \<and> (\<forall>a. a \<notin> {Jp, Jm, Jz} \<longrightarrow> cget m' a iz ir = cget m a iz ir)
           \<and> float64_2d m' = float64_2d m \<and> float64_1d m' = float64_1d m"
  using cuda_correct_currents_cell [OF assms, of inv_dt] by (simp add: Let_def)

theorem correct_currents_update_witness:
  "cfits example_memory [9, 10, 6, 7, 8, 13, 14] 2 2 \<and> ffits example_memory [0, 1, 2] 2 2
   \<and> distinct [6, 7, 8 :: ref] \<and> set [6, 7, 8 :: ref] \<inter> set [9, 10, 13, 14] = {}
   \<and> int 1 < sint (2 :: int32) \<and> int 0 < sint (2 :: int32)
   \<and> (1 :: nat) < fst (1 :: nat, 1 :: nat) * fst (2 :: nat, 2 :: nat)
   \<and> (0 :: nat) < snd (1 :: nat, 1 :: nat) * snd (2 :: nat, 2 :: nat)
   \<and> (\<exists>m'. launch (cuda_correct_currents 9 10 6 7 8 0 1 2 13 14 1 2 2) (1, 1) (2, 2)
               example_memory = Inr m'
          \<and> cget m' 6 1 0 = Complex (1499 / 4) (397 / 4)
          \<and> cget m' 9 1 0 = Complex 9 1)"
  using correct_currents_update [of example_memory 9 10 6 7 8 13 14 2 2 0 1 2 1 0 "(1, 1)" "(2, 2)" 1]
  by (auto simp: cfits_def ffits_def example_memory_def uniform_memory_def cget_def fget_def
        Let_def complex_eq_iff)

text \<open>
  Claim C4. At a cell where \<open>inv_k2 * (kz^2 + kr^2) = 1\<close>, the continuity residual
  \<open>j_corr_coef*(rho_next - rho_prev*T) + i*kz*Jz' + kr*(Jp' - Jm')\<close> is exactly zero, whatever
  the charge densities and currents were: \<open>Jp'\<close>, \<open>Jm'\<close>, \<open>Jz'\<close> are the currents the
  correction leaves, and \<open>rho_prev\<close>, \<open>rho_next\<close>, \<open>j_corr_coef\<close>, \<open>T\<close>, \<open>kz\<close>, \<open>kr\<close> are
  the values the cell held before the launch, which the launch leaves in place.
\<close>

theorem corrected_currents_residual_zero:
  assumes fits: "cfits m [rho_prev, rho_next, Jp, Jm, Jz, j_corr_coef, T] Nz Nr"
      "ffits m [kz, kr, inv_k2] Nz Nr"
    and na: "distinct [Jp, Jm, Jz]"
      "set [Jp, Jm, Jz] \<inter> set [rho_prev, rho_next, j_corr_coef, T] = {}"
    and cell: "int iz < sint Nz" "int ir < sint Nr"
    and grid: "iz < fst griddim * fst blockdim" "ir < snd griddim * snd blockdim"
    and inv: "fget m inv_k2 iz ir * ((fget m kz iz ir) ^ 2 + (fget m kr iz ir) ^ 2) = 1"
  shows "\<exists>m'. launch (cuda_correct_currents rho_prev rho_next Jp Jm Jz kz kr inv_k2 j_corr_coef T
                    inv_dt Nz Nr) griddim blockdim m = Inr m'
           \<and> cget m j_corr_coef iz ir
                * (cget m rho_next iz ir - cget m rho_prev iz ir * cget m T iz ir)
              + \<i> * of_real (fget m kz iz ir) * cget m' Jz iz ir
              + of_real (fget m kr iz ir) * (cget m' Jp iz ir - cget m' Jm iz ir) = 0
           \<and> cget m' rho_prev iz ir = cget m rho_prev iz ir
           \<and> cget m' rho_next iz ir = cget m rho_next iz ir
           \<and> cget m' j_corr_coef iz ir = cget m j_corr_coef iz ir
           \<and> cget m' T iz ir = cget m T iz ir
           \<and> fget m' kz iz ir = fget m kz iz ir
           \<and> fget m' kr iz ir = fget m kr iz ir"
proof -
  let ?R = "cget m j_corr_coef iz ir
              * (cget m rho_next iz ir - cget m rho_prev iz ir * cget m T iz ir)
            + \<i> * complex_of_real (fget m kz iz ir) * cget m Jz iz ir
            + complex_of_real (fget m kr iz ir) * (cget m Jp iz ir - cget m Jm iz ir)"
  let ?F = "complex_of_real (- fget m inv_k2 iz ir) * ?R"
  from cuda_correct_currents_cell [OF fits na cell grid, of inv_dt] obtain m' where
    l: "launch (cuda_correct_currents rho_prev rho_next Jp Jm Jz kz kr inv_k2 j_corr_coef T
          inv_dt Nz Nr) griddim blockdim m = Inr m'"
    and Jp: "cget m' Jp iz ir = cget m Jp iz ir + complex_of_real (0.5 * fget m kr iz ir) * ?F"
    and Jm: "cget m' Jm iz ir = cget m Jm iz ir + complex_of_real (- 0.5 * fget m kr iz ir) * ?F"
    and Jz: "cget m' Jz iz ir = cget m Jz iz ir + - \<i> * complex_of_real (fget m kz iz ir) * ?F"
    and other: "\<forall>a. a \<notin> {Jp, Jm, Jz} \<longrightarrow> cget m' a iz ir = cget m a iz ir"
    and fl: "float64_2d m' = float64_2d m"
    by (auto simp: Let_def)
  from na other have same: "cget m' j_corr_coef iz ir = cget m j_corr_coef iz ir"
    "cget m' rho_next iz ir = cget m rho_next iz ir"
    "cget m' rho_prev iz ir = cget m rho_prev iz ir"
    "cget m' T iz ir = cget m T iz ir"
    by auto
  from fl have f: "fget m' kz iz ir = fget m kz iz ir" "fget m' kr iz ir = fget m kr iz ir"
    by (simp_all add: fget_def)
  have "cget m j_corr_coef iz ir
                * (cget m rho_next iz ir - cget m rho_prev iz ir * cget m T iz ir)
              + \<i> * of_real (fget m kz iz ir) * cget m' Jz iz ir
              + of_real (fget m kr iz ir) * (cget m' Jp iz ir - cget m' Jm iz ir)
        = ?R + of_real ((fget m kz iz ir) ^ 2 + (fget m kr iz ir) ^ 2) * ?F"
    unfolding Jp Jm Jz by (rule residual_after_correction)
  also have "\<dots> = 0"
    using inv by (rule residual_cancels)
  finally show ?thesis using l same f by blast
qed

theorem corrected_currents_residual_zero_witness:
  "cfits example_memory [9, 10, 6, 7, 8, 13, 14] 2 2 \<and> ffits example_memory [0, 1, 2] 2 2
   \<and> distinct [6, 7, 8 :: ref] \<and> set [6, 7, 8 :: ref] \<inter> set [9, 10, 13, 14] = {}
   \<and> int 1 < sint (2 :: int32) \<and> int 0 < sint (2 :: int32)
   \<and> (1 :: nat) < fst (1 :: nat, 1 :: nat) * fst (2 :: nat, 2 :: nat)
   \<and> (0 :: nat) < snd (1 :: nat, 1 :: nat) * snd (2 :: nat, 2 :: nat)
   \<and> fget example_memory 2 1 0 * ((fget example_memory 0 1 0) ^ 2 + (fget example_memory 1 1 0) ^ 2) = 1
   \<and> (\<exists>m'. launch (cuda_correct_currents 9 10 6 7 8 0 1 2 13 14 1 2 2) (1, 1) (2, 2)
               example_memory = Inr m'
          \<and> Complex 13 1 * (Complex 10 1 - Complex 9 1 * Complex 14 1)
              + \<i> * cget m' 8 1 0 + (cget m' 6 1 0 - cget m' 7 1 0) = 0
          \<and> cget m' 9 1 0 = Complex 9 1 \<and> cget m' 10 1 0 = Complex 10 1
          \<and> cget m' 13 1 0 = Complex 13 1 \<and> cget m' 14 1 0 = Complex 14 1
          \<and> fget m' 0 1 0 = 1 \<and> fget m' 1 1 0 = 1)"
  using corrected_currents_residual_zero
    [of example_memory 9 10 6 7 8 13 14 2 2 0 1 2 1 0 "(1, 1)" "(2, 2)" 1]
  by (simp add: cfits_def ffits_def example_memory_def uniform_memory_def fget_def cget_def)

section \<open>The shift of the charge-density history\<close>

text \<open>
  Claim C5. After a launch of the rho-history shift on two different arrays, at every cell
  inside \<open>Nz\<close> by \<open>Nr\<close> that the launch covers, \<open>rho_prev\<close> holds the value
  \<open>rho_next\<close> held before the launch and \<open>rho_next\<close> holds zero.
\<close>

theorem push_rho_shifts_history:
  assumes fits: "cfits m [rho_prev, rho_next] Nz Nr"
    and na: "rho_prev \<noteq> rho_next"
    and cell: "int iz < sint Nz" "int ir < sint Nr"
    and grid: "iz < fst griddim * fst blockdim" "ir < snd griddim * snd blockdim"
  shows "\<exists>m'. launch (cuda_push_rho rho_prev rho_next Nz Nr) griddim blockdim m = Inr m'
           \<and> cget m' rho_prev iz ir = cget m rho_next iz ir
           \<and> cget m' rho_next iz ir = 0"
proof -
  have tot: "\<exists>m2. cuda_push_rho rho_prev rho_next Nz Nr jz jr m1 = Inr m2"
    if "same_layout m m1" for jz jr m1
    using fits that by (intro cuda_push_rho_total) (simp add: cfits_layout)
  from launch_cell [OF cuda_push_rho_local tot grid] obtain m' m1 m2 where
    l: "launch (cuda_push_rho rho_prev rho_next Nz Nr) griddim blockdim m = Inr m'"
    and a1: "agree_at iz ir m m1"
    and t: "cuda_push_rho rho_prev rho_next Nz Nr iz ir m1 = Inr m2"
    and a2: "agree_at iz ir m2 m'"
    by blast
  from a1 fits cell have "cin m1 [rho_prev, rho_next] iz ir"
    by (rule agree_at_cin)
  with t cell na have "cget m2 rho_prev iz ir = cget m1 rho_next iz ir" "cget m2 rho_next iz ir = 0"
    by (auto simp: cuda_push_rho_def Let_def cget_cset)
  with l show ?thesis by (simp add: agree_at_cget [OF a1] agree_at_cget [OF a2, symmetric])
qed

theorem push_rho_shifts_history_witness:
  "cfits (uniform_memory 2 2 (\<lambda>a iz ir. if a = 1 then 5 else 3) (\<lambda>a iz ir. 0)) [0, 1] 2 2
   \<and> (0::nat) \<noteq> 1 \<and> int 1 < sint (2::int32) \<and> int 0 < sint (2::int32)
   \<and> (1::nat) < fst (1::nat, 1::nat) * fst (2::nat, 2::nat) \<and> (0::nat) < snd (1::nat, 1::nat) * snd (2::nat, 2::nat)
   \<and> (\<exists>m'. launch (cuda_push_rho 0 1 2 2) (1, 1) (2, 2)
              (uniform_memory 2 2 (\<lambda>a iz ir. if a = 1 then 5 else 3) (\<lambda>a iz ir. 0)) = Inr m'
          \<and> cget m' 0 1 0 = 5 \<and> cget m' 1 1 0 = 0)"
  using push_rho_shifts_history [of "uniform_memory 2 2 (\<lambda>a iz ir. if a = 1 then 5 else 3) (\<lambda>a iz ir. 0)"
      0 1 2 2 1 0 "(1, 1)" "(2, 2)"]
  by (simp add: cfits_def uniform_memory_def cget_def)

text \<open>
  The two arrays must differ: a thread that is given the same array twice leaves zero in it.
\<close>

lemma push_rho_same_array:
  assumes "int iz < sint Nz" "int ir < sint Nr" "cin m [rho] iz ir"
  shows "\<exists>m'. cuda_push_rho rho rho Nz Nr iz ir m = Inr m' \<and> cget m' rho iz ir = 0"
  using assms by (simp add: cuda_push_rho_def cin_def Let_def cget_cset)

section \<open>The concrete scenario\<close>

lemma golden_cget:
  "cget (golden_memory dt rpc rnc) a iz ir =
     (if a = 8 then (if iz = 2 \<and> ir = 1 then 1 else 0)
      else if a = 11 then rpc
      else if a = 12 then rnc
      else if a = 13 then of_real dt
      else if a = 14 \<or> a = 15 then 1
      else 0)"
  by (simp add: golden_memory_def uniform_memory_def cget_def)

lemma golden_fget:
  "fget (golden_memory dt rpc rnc) a iz ir =
     (if a = 0 then 1
      else if a = 1 then dt
      else if a = 2 then (if iz = 2 \<and> ir = 1 then 1 / 2 else 0)
      else if a = 3 then (if iz = 2 \<and> ir = 1 then 1 else 0)
      else 0)"
  by (simp add: golden_memory_def uniform_memory_def fget_def)

lemma golden_fits:
  "cfits (golden_memory dt rpc rnc) [0, 1, 2, 3, 4, 5, 6, 7, 8, 9, 10, 11, 12, 13, 14, 15] 4 4"
  "ffits (golden_memory dt rpc rnc) [0, 1, 2, 3] 4 4"
  by (simp_all add: cfits_def ffits_def golden_memory_def uniform_memory_def)

lemma golden_scenario:
  assumes grid: "4 \<le> fst griddim * fst blockdim" "4 \<le> snd griddim * snd blockdim"
  shows "\<exists>m'. launch (cuda_push_eb_with c epsilon_0 mu_0 0 1 2 3 4 5 6 7 8 9 10 11 12 13 0 1 14 15
                    2 3 dt V 1 0 4 4) griddim blockdim (golden_memory dt rpc rnc) = Inr m'
     \<and> (\<forall>iz<4. \<forall>ir<4. (iz, ir) \<noteq> (2, 1) \<longrightarrow>
            cget m' 0 iz ir = 0 \<and> cget m' 1 iz ir = 0 \<and> cget m' 2 iz ir = 0)
     \<and> cget m' 0 2 1 = \<i> * of_real (dt / 4) * rnc
     \<and> cget m' 1 2 1 = - (\<i> * of_real (dt / 4) * rnc)
     \<and> cget m' 2 2 1 = of_real dt * rnc + \<i> * of_real (dt * V) - of_real (c ^ 2 * dt * mu_0)"
proof -
  let ?G = "golden_memory dt rpc rnc"
  let ?k = "cuda_push_eb_with c epsilon_0 mu_0 0 1 2 3 4 5 6 7 8 9 10 11 12 13 0 1 14 15
              2 3 dt V 1 0 4 4"
  note gf = golden_fits [of dt rpc rnc]
  from cuda_push_eb_with_launch_total [OF gf] obtain m' where
    l: "launch ?k griddim blockdim ?G = Inr m'" by blast
  have na: "distinct [0, 1, 2, 3, 4, 5 :: ref]"
    "set [0, 1, 2, 3, 4, 5 :: ref] \<inter> set [6, 7, 8, 9, 10, 11, 12, 13, 14, 15] = {}"
    by simp_all
  have fb: "(1 :: int8) \<noteq> 0" by simp
  have cellv: "cget m' 0 iz ir =
        (if iz = 2 \<and> ir = 1 then \<i> * of_real (dt / 4) * rnc else 0)
      \<and> cget m' 1 iz ir =
        (if iz = 2 \<and> ir = 1 then - (\<i> * of_real (dt / 4) * rnc) else 0)
      \<and> cget m' 2 iz ir =
        (if iz = 2 \<and> ir = 1
         then of_real dt * rnc + \<i> * of_real (dt * V) - of_real (c ^ 2 * dt * mu_0) else 0)"
    if c: "iz < 4" "ir < 4" for iz ir
  proof -
    from c have cell: "int iz < sint (4 :: int32)" "int ir < sint (4 :: int32)" by simp_all
    from c grid have g: "iz < fst griddim * fst blockdim" "ir < snd griddim * snd blockdim"
      by simp_all
    note f = cuda_push_eb_with_feedback_cell
      [where c = c and ?epsilon_0.0 = epsilon_0 and ?mu_0.0 = mu_0 and dt = dt and V = V
         and use_true_rho = 0, OF gf na fb cell g]
    show ?thesis
    proof (cases "iz = 2 \<and> ir = 1")
      case True
      then have iz: "iz = 2" and ir: "ir = 1" by simp_all
      from f [unfolded l iz ir] show ?thesis
        unfolding iz ir
        apply (simp (no_asm_use) only: Let_def sum.inject ex_simps simp_thms if_False)
        apply (elim conjE)
        apply (simp (no_asm_simp) only:)
        apply (simp (no_asm) add: golden_cget golden_fget c2_def complex_eq_iff)
        done
    next
      case False
      from f [unfolded l] show ?thesis
        apply (simp (no_asm_use) only: Let_def sum.inject ex_simps simp_thms if_False)
        apply (elim conjE)
        apply (simp (no_asm_simp) only:)
        apply (insert False)
        apply (auto simp: golden_cget golden_fget c2_def)
        done
    qed
  qed
  from cellv [of 2 1] have "cget m' 0 2 1 = \<i> * of_real (dt / 4) * rnc"
    "cget m' 1 2 1 = - (\<i> * of_real (dt / 4) * rnc)"
    "cget m' 2 2 1 = of_real dt * rnc + \<i> * of_real (dt * V) - of_real (c ^ 2 * dt * mu_0)"
    by simp_all
  moreover have "\<forall>iz<4. \<forall>ir<4. (iz, ir) \<noteq> (2, 1) \<longrightarrow>
            cget m' 0 iz ir = 0 \<and> cget m' 1 iz ir = 0 \<and> cget m' 2 iz ir = 0"
    using cellv by auto
  ultimately show ?thesis using l by blast
qed

text \<open>
  Claim C6, as amended. In the concrete scenario, a launch of the field push that covers
  the 4 by 4 grid leaves \<open>Ep\<close>, \<open>Em\<close> and \<open>Ez\<close> unchanged at every cell other than (2, 1).
  At the cell (2, 1) the divergence of \<open>E\<close> is 0 but the divergence of \<open>J\<close> is \<open>i\<close>, since
  \<open>kz = 1\<close> and \<open>Jz = 1\<close> there; so \<open>rho_diff = i * rho_next_coef * dt\<close>, and the new \<open>Ep\<close> is
  \<open>0.25 * i * rho_next_coef * dt\<close>, the new \<open>Em\<close> its negative, and the new \<open>Ez\<close> is
  \<open>rho_next_coef * dt + i * dt * V - c^2 * dt * mu_0\<close>.
\<close>

theorem golden_scenario_electric_field:
  assumes grid: "4 \<le> fst griddim * fst blockdim" "4 \<le> snd griddim * snd blockdim"
  shows "\<exists>m'. launch (cuda_push_eb_with c epsilon_0 mu_0 0 1 2 3 4 5 6 7 8 9 10 11 12 13 0 1 14 15
                    2 3 dt V 1 0 4 4) griddim blockdim (golden_memory dt rpc rnc) = Inr m'
     \<and> (\<forall>iz<4. \<forall>ir<4. (iz, ir) \<noteq> (2, 1) \<longrightarrow>
            cget m' 0 iz ir = cget (golden_memory dt rpc rnc) 0 iz ir
          \<and> cget m' 1 iz ir = cget (golden_memory dt rpc rnc) 1 iz ir
          \<and> cget m' 2 iz ir = cget (golden_memory dt rpc rnc) 2 iz ir)
     \<and> of_real (fget (golden_memory dt rpc rnc) 2 2 1)
          * (cget (golden_memory dt rpc rnc) 0 2 1 - cget (golden_memory dt rpc rnc) 1 2 1)
        + \<i> * of_real (fget (golden_memory dt rpc rnc) 3 2 1)
          * cget (golden_memory dt rpc rnc) 2 2 1 = 0
     \<and> of_real (fget (golden_memory dt rpc rnc) 2 2 1)
          * (cget (golden_memory dt rpc rnc) 6 2 1 - cget (golden_memory dt rpc rnc) 7 2 1)
        + \<i> * of_real (fget (golden_memory dt rpc rnc) 3 2 1)
          * cget (golden_memory dt rpc rnc) 8 2 1 = \<i>
     \<and> cget m' 0 2 1 = \<i> * of_real (dt / 4) * rnc
     \<and> cget m' 1 2 1 = - (\<i> * of_real (dt / 4) * rnc)
     \<and> cget m' 2 2 1 = of_real dt * rnc + \<i> * of_real (dt * V) - of_real (c ^ 2 * dt * mu_0)"
proof -
  from golden_scenario [OF grid, of c epsilon_0 mu_0 dt V rpc rnc] obtain m' where
    l: "launch (cuda_push_eb_with c epsilon_0 mu_0 0 1 2 3 4 5 6 7 8 9 10 11 12 13 0 1 14 15
                    2 3 dt V 1 0 4 4) griddim blockdim (golden_memory dt rpc rnc) = Inr m'"
    and others: "\<forall>iz<4. \<forall>ir<4. (iz, ir) \<noteq> (2, 1) \<longrightarrow>
            cget m' 0 iz ir = 0 \<and> cget m' 1 iz ir = 0 \<and> cget m' 2 iz ir = 0"
    and e: "cget m' 0 2 1 = \<i> * of_real (dt / 4) * rnc"
      "cget m' 1 2 1 = - (\<i> * of_real (dt / 4) * rnc)"
      "cget m' 2 2 1 = of_real dt * rnc + \<i> * of_real (dt * V) - of_real (c ^ 2 * dt * mu_0)"
    by blast
  from others have "\<forall>iz<4. \<forall>ir<4. (iz, ir) \<noteq> (2, 1) \<longrightarrow>
            cget m' 0 iz ir = cget (golden_memory dt rpc rnc) 0 iz ir
          \<and> cget m' 1 iz ir = cget (golden_memory dt rpc rnc) 1 iz ir
          \<and> cget m' 2 iz ir = cget (golden_memory dt rpc rnc) 2 iz ir"
    by (simp add: golden_cget)
  moreover have "of_real (fget (golden_memory dt rpc rnc) 2 2 1)
          * (cget (golden_memory dt rpc rnc) 0 2 1 - cget (golden_memory dt rpc rnc) 1 2 1)
        + \<i> * of_real (fget (golden_memory dt rpc rnc) 3 2 1)
          * cget (golden_memory dt rpc rnc) 2 2 1 = 0"
    by (simp add: golden_cget golden_fget)
  moreover have "of_real (fget (golden_memory dt rpc rnc) 2 2 1)
          * (cget (golden_memory dt rpc rnc) 6 2 1 - cget (golden_memory dt rpc rnc) 7 2 1)
        + \<i> * of_real (fget (golden_memory dt rpc rnc) 3 2 1)
          * cget (golden_memory dt rpc rnc) 8 2 1 = \<i>"
    by (simp add: golden_cget golden_fget)
  ultimately show ?thesis using l e by blast
qed

theorem golden_scenario_electric_field_witness:
  "(4 :: nat) \<le> fst (1 :: nat, 1 :: nat) * fst (4 :: nat, 4 :: nat)
   \<and> (4 :: nat) \<le> snd (1 :: nat, 1 :: nat) * snd (4 :: nat, 4 :: nat)
   \<and> (\<exists>m'. launch (cuda_push_eb_with 1 1 1 0 1 2 3 4 5 6 7 8 9 10 11 12 13 0 1 14 15
                    2 3 2 1 1 0 4 4) (1, 1) (4, 4) (golden_memory 2 0 1) = Inr m'
          \<and> cget m' 0 0 0 = 0 \<and> cget m' 0 2 1 = \<i> / 2 \<and> cget m' 1 2 1 = - (\<i> / 2)
          \<and> cget m' 2 2 1 = 2 * \<i>)"
  using golden_scenario_electric_field
    [where griddim = "(1, 1)" and blockdim = "(4, 4)" and c = 1 and ?epsilon_0.0 = 1
       and ?mu_0.0 = 1 and dt = 2 and V = 1 and rpc = 0 and rnc = 1]
  by (auto simp: golden_cget complex_eq_iff)

text \<open>
  The value 0 that the specification expects for the new \<open>Ep\<close> at the cell (2, 1) is not
  what the code computes: with \<open>dt = 1\<close> and \<open>rho_next_coef = 1\<close> it is \<open>i / 4\<close>.
\<close>

theorem golden_scenario_Ep_counterexample:
  "cell_after
     (launch (cuda_push_eb_with 1 1 1 0 1 2 3 4 5 6 7 8 9 10 11 12 13 0 1 14 15 2 3 1 1 1 0 4 4)
        (1, 1) (4, 4) (golden_memory 1 0 1)) 0 2 1 = Some (\<i> / 4)
   \<and> cell_after
     (launch (cuda_push_eb_with 1 1 1 0 1 2 3 4 5 6 7 8 9 10 11 12 13 0 1 14 15 2 3 1 1 1 0 4 4)
        (1, 1) (4, 4) (golden_memory 1 0 1)) 0 2 1 \<noteq> Some 0"
proof -
  have g: "(4 :: nat) \<le> fst (1 :: nat, 1 :: nat) * fst (4 :: nat, 4 :: nat)"
    "(4 :: nat) \<le> snd (1 :: nat, 1 :: nat) * snd (4 :: nat, 4 :: nat)"
    by simp_all
  from golden_scenario [OF g, of 1 1 1 1 1 0 1] obtain m' where
    "launch (cuda_push_eb_with 1 1 1 0 1 2 3 4 5 6 7 8 9 10 11 12 13 0 1 14 15 2 3 1 1 1 0 4 4)
        (1, 1) (4, 4) (golden_memory 1 0 1) = Inr m'"
    and "cget m' 0 2 1 = \<i> * of_real (1 / 4) * 1"
    by blast
  then show ?thesis by (simp add: cell_after_def complex_eq_iff)
qed

section \<open>The field push without particle feedback\<close>

lemma cget_zero_arrays:
  "cget (zero_arrays as m) a iz ir = (if a \<in> set as then 0 else cget m a iz ir)"
  by (simp add: zero_arrays_def cget_def)

lemma fget_zero_arrays: "fget (zero_arrays as m) a iz ir = fget m a iz ir"
  by (simp add: zero_arrays_def fget_def)

lemma same_layout_zero_arrays: "same_layout m (zero_arrays as m)"
  by (simp add: same_layout_def zero_arrays_def)

text \<open>
  Claim C7. The field push without particle feedback leaves in the six field arrays, at
  every position, what the field push with particle feedback and the deposited charge
  density leaves when it is run on the same fields and coefficients with the currents and
  both charge densities set to zero.
\<close>

theorem push_eb_vacuum_is_feedback_without_sources:
  assumes fits: "cfits m [Ep, Em, Ez, Bp, Bm, Bz, Jp, Jm, Jz, rho_prev, rho_next,
                      rho_prev_coef, rho_next_coef, j_coef, T, T_rho] Nz Nr"
      "ffits m [C, S_w, kr, kz] Nz Nr"
    and na: "distinct [Ep, Em, Ez, Bp, Bm, Bz]"
      "set [Ep, Em, Ez, Bp, Bm, Bz]
         \<inter> set [Jp, Jm, Jz, rho_prev, rho_next, rho_prev_coef, rho_next_coef, j_coef, T, T_rho] = {}"
    and src: "set [Jp, Jm, Jz, rho_prev, rho_next]
         \<inter> set [rho_prev_coef, rho_next_coef, j_coef, T] = {}"
    and fb: "ptcl_feedback \<noteq> 0" and tr: "use_true_rho \<noteq> 0"
  shows "\<exists>m' m0'.
      launch (cuda_push_eb_with c epsilon_0 mu_0 Ep Em Ez Bp Bm Bz Jp Jm Jz rho_prev rho_next
                rho_prev_coef rho_next_coef j_coef C S_w T T_rho kr kz dt V
                0 any_rho Nz Nr) griddim blockdim m = Inr m'
    \<and> launch (cuda_push_eb_with c epsilon_0 mu_0 Ep Em Ez Bp Bm Bz Jp Jm Jz rho_prev rho_next
                rho_prev_coef rho_next_coef j_coef C S_w T T_rho kr kz dt V
                ptcl_feedback use_true_rho Nz Nr) griddim blockdim
         (zero_arrays [Jp, Jm, Jz, rho_prev, rho_next] m) = Inr m0'
    \<and> (\<forall>a \<in> {Ep, Em, Ez, Bp, Bm, Bz}. \<forall>iz ir. cget m' a iz ir = cget m0' a iz ir)"
proof -
  let ?kv = "cuda_push_eb_with c epsilon_0 mu_0 Ep Em Ez Bp Bm Bz Jp Jm Jz rho_prev rho_next
                rho_prev_coef rho_next_coef j_coef C S_w T T_rho kr kz dt V
                0 any_rho Nz Nr"
  let ?kf = "cuda_push_eb_with c epsilon_0 mu_0 Ep Em Ez Bp Bm Bz Jp Jm Jz rho_prev rho_next
                rho_prev_coef rho_next_coef j_coef C S_w T T_rho kr kz dt V
                ptcl_feedback use_true_rho Nz Nr"
  let ?m0 = "zero_arrays [Jp, Jm, Jz, rho_prev, rho_next] m"
  have fits0: "cfits ?m0 [Ep, Em, Ez, Bp, Bm, Bz, Jp, Jm, Jz, rho_prev, rho_next,
                      rho_prev_coef, rho_next_coef, j_coef, T, T_rho] Nz Nr"
      "ffits ?m0 [C, S_w, kr, kz] Nz Nr"
    using fits by (simp_all add: cfits_layout [OF same_layout_zero_arrays]
        ffits_layout [OF same_layout_zero_arrays])
  from cuda_push_eb_with_launch_total [OF fits] obtain m' where
    lv: "launch ?kv griddim blockdim m = Inr m'" by blast
  from cuda_push_eb_with_launch_total [OF fits0] obtain m0' where
    lf: "launch ?kf griddim blockdim ?m0 = Inr m0'" by blast
  from na have naT: "T \<notin> set [Ep, Em, Ez, Bp, Bm, Bz]" by auto
  from na src have z: "\<forall>a\<in>set [Ep, Em, Ez, Bp, Bm, Bz, rho_prev_coef, rho_next_coef, j_coef, T].
      a \<notin> set [Jp, Jm, Jz, rho_prev, rho_next]"
    by auto
  have "cget m' a iz ir = cget m0' a iz ir" if a: "a \<in> {Ep, Em, Ez, Bp, Bm, Bz}" for a iz ir
  proof (cases "iz < fst griddim * fst blockdim \<and> ir < snd griddim * snd blockdim")
    case False
    from launch_outside [OF cuda_push_eb_with_local lv False]
    have "cget m' a iz ir = cget m a iz ir" by (rule agree_at_cget)
    moreover from launch_outside [OF cuda_push_eb_with_local lf False]
    have "cget m0' a iz ir = cget ?m0 a iz ir" by (rule agree_at_cget)
    moreover from a z have "cget ?m0 a iz ir = cget m a iz ir"
      by (auto simp: cget_zero_arrays)
    ultimately show ?thesis by simp
  next
    case grid: True
    show ?thesis
    proof (cases "int iz < sint Nz \<and> int ir < sint Nr")
      case False
      then have "?kv iz ir m1 = Inr m1" "?kf iz ir m1 = Inr m1" for m1
        by (simp_all add: cuda_push_eb_with_skip)
      with launch_unchanged [OF cuda_push_eb_with_local lv]
        launch_unchanged [OF cuda_push_eb_with_local lf]
      have "cget m' a iz ir = cget m a iz ir" "cget m0' a iz ir = cget ?m0 a iz ir"
        by (simp_all add: agree_at_cget)
      moreover from a z have "cget ?m0 a iz ir = cget m a iz ir"
        by (auto simp: cget_zero_arrays)
      ultimately show ?thesis by simp
    next
      case True
      with grid have cell: "int iz < sint Nz" "int ir < sint Nr"
        and g: "iz < fst griddim * fst blockdim" "ir < snd griddim * snd blockdim"
        by simp_all
      note v = cuda_push_eb_with_vacuum_cell
          [where c = c and ?epsilon_0.0 = epsilon_0 and ?mu_0.0 = mu_0 and dt = dt and V = V
             and use_true_rho = any_rho and ptcl_feedback = 0,
           OF fits na(1) naT refl cell g]
      note f = cuda_push_eb_with_feedback_cell
          [where c = c and ?epsilon_0.0 = epsilon_0 and ?mu_0.0 = mu_0 and dt = dt and V = V
             and use_true_rho = use_true_rho,
           OF fits0 na fb cell g]
      from z tr a show ?thesis
        using v f unfolding lv lf
        by (simp (no_asm_use) only: Let_def if_True simp_thms sum.inject ex_simps)
           (auto simp: cget_zero_arrays fget_zero_arrays)
    qed
  qed
  with lv lf show ?thesis by blast
qed

theorem push_eb_vacuum_is_feedback_without_sources_witness:
  "cfits example_memory [0, 1, 2, 3, 4, 5, 6, 7, 8, 9, 10, 11, 12, 13, 14, 15] 2 2
   \<and> ffits example_memory [0, 1, 2, 3] 2 2
   \<and> distinct [0, 1, 2, 3, 4, 5 :: ref]
   \<and> set [0, 1, 2, 3, 4, 5 :: ref] \<inter> set [6, 7, 8, 9, 10, 11, 12, 13, 14, 15] = {}
   \<and> set [6, 7, 8, 9, 10 :: ref] \<inter> set [11, 12, 13, 14] = {}
   \<and> (1 :: int8) \<noteq> 0 \<and> (2 :: int8) \<noteq> 0
   \<and> (\<exists>m' m0'.
        launch (cuda_push_eb_with 2 1 3 0 1 2 3 4 5 6 7 8 9 10 11 12 13 0 1 14 15 2 3 1 5
                  0 0 2 2) (1, 1) (2, 2) example_memory = Inr m'
      \<and> launch (cuda_push_eb_with 2 1 3 0 1 2 3 4 5 6 7 8 9 10 11 12 13 0 1 14 15 2 3 1 5
                  1 2 2 2) (1, 1) (2, 2) (zero_arrays [6, 7, 8, 9, 10] example_memory) = Inr m0'
      \<and> (\<forall>a \<in> {0, 1, 2, 3, 4, 5}. \<forall>iz ir. cget m' a iz ir = cget m0' a iz ir))"
proof -
  have h1: "cfits example_memory [0, 1, 2, 3, 4, 5, 6, 7, 8, 9, 10, 11, 12, 13, 14, 15] 2 2"
    and h2: "ffits example_memory [0, 1, 2, 3] 2 2"
    by (simp_all add: cfits_def ffits_def example_memory_def uniform_memory_def)
  have h3: "distinct [0, 1, 2, 3, 4, 5 :: ref]"
    and h4: "set [0, 1, 2, 3, 4, 5 :: ref] \<inter> set [6, 7, 8, 9, 10, 11, 12, 13, 14, 15] = {}"
    and h5: "set [6, 7, 8, 9, 10 :: ref] \<inter> set [11, 12, 13, 14] = {}"
    and h6: "(1 :: int8) \<noteq> 0" and h7: "(2 :: int8) \<noteq> 0"
    by simp_all
  from h1 h2 h3 h4 h5 h6 h7
    push_eb_vacuum_is_feedback_without_sources
      [where c = 2 and ?epsilon_0.0 = 1 and ?mu_0.0 = 3 and dt = 1 and V = 5 and any_rho = 0
         and griddim = "(1, 1)" and blockdim = "(2, 2)", OF h1 h2 h3 h4 h5 h6 h7]
  show ?thesis by blast
qed

section \<open>The spectral filter\<close>

subsection \<open>Rounding to float64\<close>

lemma bitlen_eqI:
  assumes "2 ^ k \<le> n" "n < 2 ^ Suc k"
  shows "bitlen n = int (Suc k)"
proof (rule antisym)
  show "bitlen n \<le> int (Suc k)"
    unfolding bitlen_le_iff_power nat_int using assms(2) by simp
  show "int (Suc k) \<le> bitlen n"
    unfolding bitlen_ge_iff_power nat_int using assms(1) by simp
qed

text \<open>
  The numbers \<open>x\<close> with \<open>2^-a \<le> |x| < 2^(1-a)\<close>, for \<open>a\<close> up to 1022, are in the normal
  range; their last bit has the exponent \<open>-(a + 52)\<close>.
\<close>

lemma float64_ulp_exponent_below_two:
  assumes lo: "1 \<le> \<bar>x\<bar> * 2 ^ a" and hi: "\<bar>x\<bar> * 2 ^ a < 2" and a: "a \<le> 1022"
  shows "float64_ulp_exponent x = - int (a + 52)"
proof -
  define k where "k = 1074 - a"
  with a have k: "k + a = 1074" "52 \<le> k" by simp_all
  have p: "(2 :: real) ^ 1074 = 2 ^ k * 2 ^ a"
    by (simp only: k(1) [symmetric] power_add)
  have s: "\<bar>x\<bar> * 2 ^ 1074 = 2 ^ k * (\<bar>x\<bar> * 2 ^ a)"
    by (simp only: p mult_ac)
  have "(2 :: real) ^ k * 1 \<le> 2 ^ k * (\<bar>x\<bar> * 2 ^ a)"
    using lo by (intro mult_left_mono) simp_all
  then have "of_int (2 ^ k) \<le> \<bar>x\<bar> * 2 ^ 1074"
    by (simp only: s of_int_power of_int_numeral mult_1_right)
  then have l: "2 ^ k \<le> \<lfloor>\<bar>x\<bar> * 2 ^ 1074\<rfloor>"
    by (simp only: le_floor_iff)
  have "(2 :: real) ^ k * (\<bar>x\<bar> * 2 ^ a) < 2 ^ k * 2"
    using hi by (intro mult_strict_left_mono) simp_all
  then have "\<bar>x\<bar> * 2 ^ 1074 < of_int (2 ^ Suc k)"
    by (simp only: s of_int_power of_int_numeral of_int_mult power_Suc mult_ac)
  then have h: "\<lfloor>\<bar>x\<bar> * 2 ^ 1074\<rfloor> < 2 ^ Suc k"
    by (simp only: floor_less_iff)
  have "bitlen \<lfloor>\<bar>x\<bar> * 2 ^ 1074\<rfloor> = int (Suc k)"
    using l h by (rule bitlen_eqI)
  also from k have "\<dots> = 1075 - int a" by simp
  finally have "bitlen \<lfloor>\<bar>x\<bar> * 2 ^ 1074\<rfloor> = 1075 - int a" .
  with a show ?thesis
    unfolding float64_ulp_exponent_def by simp
qed

lemma float64_round_below_two:
  assumes lo: "1 \<le> \<bar>x\<bar> * 2 ^ a" and hi: "\<bar>x\<bar> * 2 ^ a < 2" and a: "a \<le> 1022"
  shows "float64_round x = of_int (round_half_even (x * 2 ^ (a + 52))) / 2 ^ (a + 52)"
proof -
  have e: "float64_ulp_exponent x = - int (a + 52)"
    using assms by (rule float64_ulp_exponent_below_two)
  have q: "(2 :: real) powi (- int (a + 52)) = 1 / 2 ^ (a + 52)"
    by (simp only: power_int_minus power_int_of_nat inverse_eq_divide)
  show ?thesis
    unfolding float64_round_def Let_def e q by simp
qed

lemma float64_mul_zero: "float64_mul w 0 = 0"
  by (simp add: float64_mul_def float64_round_def round_half_even_def)

text \<open>Products that are \<^verbatim>\<open>float64\<close> numbers themselves, and so are not changed by the rounding.\<close>

lemma float64_mul_exact:
  "float64_mul (3 / 4) 1 = 3 / 4"
  "float64_mul (3 / 4) (1 / 2) = 3 / 8"
  "float64_mul (3 / 4) (3 / 4) = 9 / 16"
  "float64_mul (3 / 4) (3 / 8) = 9 / 32"
  "float64_mul (9 / 16) 1 = 9 / 16"
  "float64_mul (9 / 16) (1 / 2) = 9 / 32"
proof -
  show "float64_mul (3 / 4) 1 = 3 / 4"
    unfolding float64_mul_def
    by (subst float64_round_below_two [where a = 1]) (simp_all add: round_half_even_def Let_def)
  show "float64_mul (3 / 4) (1 / 2) = 3 / 8"
    unfolding float64_mul_def
    by (subst float64_round_below_two [where a = 2]) (simp_all add: round_half_even_def Let_def)
  show "float64_mul (3 / 4) (3 / 4) = 9 / 16"
    unfolding float64_mul_def
    by (subst float64_round_below_two [where a = 1]) (simp_all add: round_half_even_def Let_def)
  show "float64_mul (3 / 4) (3 / 8) = 9 / 32"
    unfolding float64_mul_def
    by (subst float64_round_below_two [where a = 2]) (simp_all add: round_half_even_def Let_def)
  show "float64_mul (9 / 16) 1 = 9 / 16"
    unfolding float64_mul_def
    by (subst float64_round_below_two [where a = 1]) (simp_all add: round_half_even_def Let_def)
  show "float64_mul (9 / 16) (1 / 2) = 9 / 32"
    unfolding float64_mul_def
    by (subst float64_round_below_two [where a = 2]) (simp_all add: round_half_even_def Let_def)
qed

text \<open>
  The products of 0.75 and of 0.5625 with the \<^verbatim>\<open>float64\<close> number nearest to 0.1, which the
  rounding changes: 0.75 times 0.1 is rounded down to \<open>5404319552844596 / 2^56\<close>, 0.75 times
  that is a tie and goes up to the even \<open>8106479329266894 / 2^57\<close>, and 0.5625 times 0.1 is
  rounded down to \<open>8106479329266893 / 2^57\<close>.
\<close>

lemma float64_mul_rounded:
  "float64_mul (3 / 4) (3602879701896397 / 36028797018963968)
     = 1351079888211149 / 18014398509481984"
  "float64_mul (3 / 4) (1351079888211149 / 18014398509481984)
     = 4053239664633447 / 72057594037927936"
  "float64_mul (9 / 16) (3602879701896397 / 36028797018963968)
     = 8106479329266893 / 144115188075855872"
proof -
  show "float64_mul (3 / 4) (3602879701896397 / 36028797018963968)
     = 1351079888211149 / 18014398509481984"
    unfolding float64_mul_def
    by (subst float64_round_below_two [where a = 4]) (simp_all add: round_half_even_def Let_def)
  show "float64_mul (3 / 4) (1351079888211149 / 18014398509481984)
     = 4053239664633447 / 72057594037927936"
    unfolding float64_mul_def
    by (subst float64_round_below_two [where a = 5]) (simp_all add: round_half_even_def Let_def)
  show "float64_mul (9 / 16) (3602879701896397 / 36028797018963968)
     = 8106479329266893 / 144115188075855872"
    unfolding float64_mul_def
    by (subst float64_round_below_two [where a = 5]) (simp_all add: round_half_even_def Let_def)
qed

subsection \<open>One thread and one launch\<close>

lemma cuda_filter_vector_thread:
  assumes "int iz < sint Nz" "int ir < sint Nr"
    and "cin m [fieldr, fieldt, fieldz] iz ir" "fin m [filter_array] iz ir"
    and "cuda_filter_vector fieldr fieldt fieldz filter_array Nz Nr iz ir m = Inr m'"
  shows "cget m' a iz ir
           = (float64_mul_complex128 (fget m filter_array iz ir)
                ^^ count_list [fieldr, fieldt, fieldz] a) (cget m a iz ir)"
  using assms
  by (auto simp: cuda_filter_vector_def Let_def cget_cset fget_cset)

lemma cuda_filter_scalar_thread:
  assumes "int iz < sint Nz" "int ir < sint Nr"
    and "cin m [field] iz ir" "fin m [filter_array] iz ir"
    and "cuda_filter_scalar field filter_array Nz Nr iz ir m = Inr m'"
  shows "cget m' a iz ir
           = (float64_mul_complex128 (fget m filter_array iz ir) ^^ count_list [field] a)
               (cget m a iz ir)"
  using assms
  by (auto simp: cuda_filter_scalar_def Let_def cget_cset fget_cset)

lemma filter_launch:
  assumes loc: "local_kernel k"
    and tot: "\<And>jz jr m1. same_layout m m1 \<Longrightarrow> \<exists>m2. k jz jr m1 = Inr m2"
    and skip: "\<And>jz jr m1. \<not> (int jz < sint Nz \<and> int jr < sint Nr) \<Longrightarrow> k jz jr m1 = Inr m1"
    and thread: "\<And>jz jr m1 m2 a. int jz < sint Nz \<Longrightarrow> int jr < sint Nr \<Longrightarrow> same_layout m m1
        \<Longrightarrow> k jz jr m1 = Inr m2
        \<Longrightarrow> cget m2 a jz jr
            = (float64_mul_complex128 (fget m1 w jz jr) ^^ count_list fs a) (cget m1 a jz jr)"
  shows "\<exists>m'. launch k g b m = Inr m' \<and> same_layout m m'
     \<and> (\<forall>a iz ir. cget m' a iz ir =
          (if int iz < sint Nz \<and> int ir < sint Nr \<and> iz < fst g * fst b \<and> ir < snd g * snd b
           then (float64_mul_complex128 (fget m w iz ir) ^^ count_list fs a) (cget m a iz ir)
           else cget m a iz ir))"
proof -
  from launch_total [OF loc tot] obtain m' where l: "launch k g b m = Inr m'" by blast
  from run_threads_layout [OF loc l [unfolded launch_def]] have lay: "same_layout m m'" .
  have "cget m' a iz ir =
          (if int iz < sint Nz \<and> int ir < sint Nr \<and> iz < fst g * fst b \<and> ir < snd g * snd b
           then (float64_mul_complex128 (fget m w iz ir) ^^ count_list fs a) (cget m a iz ir)
           else cget m a iz ir)" for a iz ir
  proof (cases "iz < fst g * fst b \<and> ir < snd g * snd b")
    case False
    from launch_outside [OF loc l False] have "cget m' a iz ir = cget m a iz ir"
      by (rule agree_at_cget)
    with False show ?thesis by auto
  next
    case grid: True
    show ?thesis
    proof (cases "int iz < sint Nz \<and> int ir < sint Nr")
      case False
      from launch_unchanged [OF loc l skip [OF False]] have "cget m' a iz ir = cget m a iz ir"
        by (rule agree_at_cget)
      with False show ?thesis by auto
    next
      case True
      from grid have "(iz, ir) \<in> set (grid_threads g b)" by (simp add: grid_threads_mem)
      from run_threads_cell [OF loc l [unfolded launch_def] grid_threads_distinct this]
      obtain m1 m2 where a1: "agree_at iz ir m m1" and t: "k iz ir m1 = Inr m2"
        and a2: "agree_at iz ir m2 m'" by blast
      from a1 have "same_layout m m1" by (simp add: agree_at_def)
      with thread [of iz ir m1 m2 a] True t
      have "cget m2 a iz ir
              = (float64_mul_complex128 (fget m1 w iz ir) ^^ count_list fs a) (cget m1 a iz ir)"
        by simp
      with True grid show ?thesis
        by (simp add: agree_at_cget [OF a1] agree_at_fget [OF a1] agree_at_cget [OF a2, symmetric])
    qed
  qed
  with l lay show ?thesis by blast
qed

lemma cuda_filter_vector_launch:
  assumes fits: "cfits m [fieldr, fieldt, fieldz] Nz Nr" "ffits m [filter_array] Nz Nr"
  shows "\<exists>m'. launch (cuda_filter_vector fieldr fieldt fieldz filter_array Nz Nr) g b m = Inr m'
     \<and> same_layout m m'
     \<and> (\<forall>a iz ir. cget m' a iz ir =
          (if int iz < sint Nz \<and> int ir < sint Nr \<and> iz < fst g * fst b \<and> ir < snd g * snd b
           then (float64_mul_complex128 (fget m filter_array iz ir)
                   ^^ count_list [fieldr, fieldt, fieldz] a) (cget m a iz ir)
           else cget m a iz ir))"
proof (rule filter_launch [OF cuda_filter_vector_local])
  fix jz jr m1
  assume "same_layout m m1"
  with fits show "\<exists>m2. cuda_filter_vector fieldr fieldt fieldz filter_array Nz Nr jz jr m1 = Inr m2"
    by (intro cuda_filter_vector_total) (simp_all add: cfits_layout ffits_layout)
next
  fix jz jr m1
  assume "\<not> (int jz < sint Nz \<and> int jr < sint Nr)"
  then show "cuda_filter_vector fieldr fieldt fieldz filter_array Nz Nr jz jr m1 = Inr m1"
    by (rule cuda_filter_vector_skip)
next
  fix jz jr m1 m2 a
  assume c: "int jz < sint Nz" "int jr < sint Nr" and lay: "same_layout m m1"
    and t: "cuda_filter_vector fieldr fieldt fieldz filter_array Nz Nr jz jr m1 = Inr m2"
  from fits lay c have "cin m1 [fieldr, fieldt, fieldz] jz jr" "fin m1 [filter_array] jz jr"
    by (simp_all add: cin_fits fin_fits cfits_layout ffits_layout)
  with c t show "cget m2 a jz jr
      = (float64_mul_complex128 (fget m1 filter_array jz jr)
           ^^ count_list [fieldr, fieldt, fieldz] a) (cget m1 a jz jr)"
    by (intro cuda_filter_vector_thread)
qed

lemma cuda_filter_scalar_launch:
  assumes fits: "cfits m [field] Nz Nr" "ffits m [filter_array] Nz Nr"
  shows "\<exists>m'. launch (cuda_filter_scalar field filter_array Nz Nr) g b m = Inr m'
     \<and> same_layout m m'
     \<and> (\<forall>a iz ir. cget m' a iz ir =
          (if int iz < sint Nz \<and> int ir < sint Nr \<and> iz < fst g * fst b \<and> ir < snd g * snd b
           then (float64_mul_complex128 (fget m filter_array iz ir) ^^ count_list [field] a)
                  (cget m a iz ir)
           else cget m a iz ir))"
proof (rule filter_launch [OF cuda_filter_scalar_local])
  fix jz jr m1
  assume "same_layout m m1"
  with fits show "\<exists>m2. cuda_filter_scalar field filter_array Nz Nr jz jr m1 = Inr m2"
    by (intro cuda_filter_scalar_total) (simp_all add: cfits_layout ffits_layout)
next
  fix jz jr m1
  assume "\<not> (int jz < sint Nz \<and> int jr < sint Nr)"
  then show "cuda_filter_scalar field filter_array Nz Nr jz jr m1 = Inr m1"
    by (rule cuda_filter_scalar_skip)
next
  fix jz jr m1 m2 a
  assume c: "int jz < sint Nz" "int jr < sint Nr" and lay: "same_layout m m1"
    and t: "cuda_filter_scalar field filter_array Nz Nr jz jr m1 = Inr m2"
  from fits lay c have "cin m1 [field] jz jr" "fin m1 [filter_array] jz jr"
    by (simp_all add: cin_fits fin_fits cfits_layout ffits_layout)
  with c t show "cget m2 a jz jr
      = (float64_mul_complex128 (fget m1 filter_array jz jr) ^^ count_list [field] a)
          (cget m1 a jz jr)"
    by (intro cuda_filter_scalar_thread)
qed

subsection \<open>Two launches with one array, and one launch with another\<close>

lemma cuda_filter_vector_twice:
  assumes fits: "cfits m [fieldr, fieldt, fieldz] Nz Nr" "ffits m [filter_array, filter_other] Nz Nr"
  shows "\<exists>m1 m2 n.
        launch (cuda_filter_vector fieldr fieldt fieldz filter_array Nz Nr) g b m = Inr m1
      \<and> launch (cuda_filter_vector fieldr fieldt fieldz filter_array Nz Nr) g b m1 = Inr m2
      \<and> launch (cuda_filter_vector fieldr fieldt fieldz filter_other Nz Nr) g b m = Inr n
      \<and> (\<forall>a iz ir.
           cget m2 a iz ir =
             (if int iz < sint Nz \<and> int ir < sint Nr \<and> iz < fst g * fst b \<and> ir < snd g * snd b
              then (float64_mul_complex128 (fget m filter_array iz ir)
                      ^^ count_list [fieldr, fieldt, fieldz] a)
                     ((float64_mul_complex128 (fget m filter_array iz ir)
                         ^^ count_list [fieldr, fieldt, fieldz] a) (cget m a iz ir))
              else cget m a iz ir)
         \<and> cget n a iz ir =
             (if int iz < sint Nz \<and> int ir < sint Nr \<and> iz < fst g * fst b \<and> ir < snd g * snd b
              then (float64_mul_complex128 (fget m filter_other iz ir)
                      ^^ count_list [fieldr, fieldt, fieldz] a) (cget m a iz ir)
              else cget m a iz ir))"
proof -
  from fits have fv: "cfits m [fieldr, fieldt, fieldz] Nz Nr" and fw: "ffits m [filter_array] Nz Nr"
    and fs: "ffits m [filter_other] Nz Nr"
    by (simp_all add: cfits_def ffits_def)
  from cuda_filter_vector_launch [OF fv fw, of g b] obtain m1 where
    l1: "launch (cuda_filter_vector fieldr fieldt fieldz filter_array Nz Nr) g b m = Inr m1"
    and lay1: "same_layout m m1"
    and v1: "\<And>a iz ir. cget m1 a iz ir =
          (if int iz < sint Nz \<and> int ir < sint Nr \<and> iz < fst g * fst b \<and> ir < snd g * snd b
           then (float64_mul_complex128 (fget m filter_array iz ir)
                   ^^ count_list [fieldr, fieldt, fieldz] a) (cget m a iz ir)
           else cget m a iz ir)"
    by blast
  from fv fw lay1 have fv1: "cfits m1 [fieldr, fieldt, fieldz] Nz Nr"
    and fw1: "ffits m1 [filter_array] Nz Nr"
    by (simp_all add: cfits_layout ffits_layout)
  from cuda_filter_vector_launch [OF fv1 fw1, of g b] obtain m2 where
    l2: "launch (cuda_filter_vector fieldr fieldt fieldz filter_array Nz Nr) g b m1 = Inr m2"
    and v2: "\<And>a iz ir. cget m2 a iz ir =
          (if int iz < sint Nz \<and> int ir < sint Nr \<and> iz < fst g * fst b \<and> ir < snd g * snd b
           then (float64_mul_complex128 (fget m1 filter_array iz ir)
                   ^^ count_list [fieldr, fieldt, fieldz] a) (cget m1 a iz ir)
           else cget m1 a iz ir)"
    by blast
  from cuda_filter_vector_launch [OF fv fs, of g b] obtain n where
    l3: "launch (cuda_filter_vector fieldr fieldt fieldz filter_other Nz Nr) g b m = Inr n"
    and v3: "\<And>a iz ir. cget n a iz ir =
          (if int iz < sint Nz \<and> int ir < sint Nr \<and> iz < fst g * fst b \<and> ir < snd g * snd b
           then (float64_mul_complex128 (fget m filter_other iz ir)
                   ^^ count_list [fieldr, fieldt, fieldz] a) (cget m a iz ir)
           else cget m a iz ir)"
    by blast
  have "cget m2 a iz ir =
          (if int iz < sint Nz \<and> int ir < sint Nr \<and> iz < fst g * fst b \<and> ir < snd g * snd b
           then (float64_mul_complex128 (fget m filter_array iz ir)
                   ^^ count_list [fieldr, fieldt, fieldz] a)
                  ((float64_mul_complex128 (fget m filter_array iz ir)
                      ^^ count_list [fieldr, fieldt, fieldz] a) (cget m a iz ir))
           else cget m a iz ir)" for a iz ir
    by (simp add: v1 v2 fget_layout [OF lay1])
  with l1 l2 l3 v3 show ?thesis by blast
qed

lemma cuda_filter_scalar_twice:
  assumes fits: "cfits m [field] Nz Nr" "ffits m [filter_array, filter_other] Nz Nr"
  shows "\<exists>m1 m2 n.
        launch (cuda_filter_scalar field filter_array Nz Nr) g b m = Inr m1
      \<and> launch (cuda_filter_scalar field filter_array Nz Nr) g b m1 = Inr m2
      \<and> launch (cuda_filter_scalar field filter_other Nz Nr) g b m = Inr n
      \<and> (\<forall>a iz ir.
           cget m2 a iz ir =
             (if int iz < sint Nz \<and> int ir < sint Nr \<and> iz < fst g * fst b \<and> ir < snd g * snd b
              then (float64_mul_complex128 (fget m filter_array iz ir) ^^ count_list [field] a)
                     ((float64_mul_complex128 (fget m filter_array iz ir) ^^ count_list [field] a)
                        (cget m a iz ir))
              else cget m a iz ir)
         \<and> cget n a iz ir =
             (if int iz < sint Nz \<and> int ir < sint Nr \<and> iz < fst g * fst b \<and> ir < snd g * snd b
              then (float64_mul_complex128 (fget m filter_other iz ir) ^^ count_list [field] a)
                     (cget m a iz ir)
              else cget m a iz ir))"
proof -
  from fits have fv: "cfits m [field] Nz Nr" and fw: "ffits m [filter_array] Nz Nr"
    and fs: "ffits m [filter_other] Nz Nr"
    by (simp_all add: cfits_def ffits_def)
  from cuda_filter_scalar_launch [OF fv fw, of g b] obtain m1 where
    l1: "launch (cuda_filter_scalar field filter_array Nz Nr) g b m = Inr m1"
    and lay1: "same_layout m m1"
    and v1: "\<And>a iz ir. cget m1 a iz ir =
          (if int iz < sint Nz \<and> int ir < sint Nr \<and> iz < fst g * fst b \<and> ir < snd g * snd b
           then (float64_mul_complex128 (fget m filter_array iz ir) ^^ count_list [field] a)
                  (cget m a iz ir)
           else cget m a iz ir)"
    by blast
  from fv fw lay1 have fv1: "cfits m1 [field] Nz Nr" and fw1: "ffits m1 [filter_array] Nz Nr"
    by (simp_all add: cfits_layout ffits_layout)
  from cuda_filter_scalar_launch [OF fv1 fw1, of g b] obtain m2 where
    l2: "launch (cuda_filter_scalar field filter_array Nz Nr) g b m1 = Inr m2"
    and v2: "\<And>a iz ir. cget m2 a iz ir =
          (if int iz < sint Nz \<and> int ir < sint Nr \<and> iz < fst g * fst b \<and> ir < snd g * snd b
           then (float64_mul_complex128 (fget m1 filter_array iz ir) ^^ count_list [field] a)
                  (cget m1 a iz ir)
           else cget m1 a iz ir)"
    by blast
  from cuda_filter_scalar_launch [OF fv fs, of g b] obtain n where
    l3: "launch (cuda_filter_scalar field filter_other Nz Nr) g b m = Inr n"
    and v3: "\<And>a iz ir. cget n a iz ir =
          (if int iz < sint Nz \<and> int ir < sint Nr \<and> iz < fst g * fst b \<and> ir < snd g * snd b
           then (float64_mul_complex128 (fget m filter_other iz ir) ^^ count_list [field] a)
                  (cget m a iz ir)
           else cget m a iz ir)"
    by blast
  have "cget m2 a iz ir =
          (if int iz < sint Nz \<and> int ir < sint Nr \<and> iz < fst g * fst b \<and> ir < snd g * snd b
           then (float64_mul_complex128 (fget m filter_array iz ir) ^^ count_list [field] a)
                  ((float64_mul_complex128 (fget m filter_array iz ir) ^^ count_list [field] a)
                     (cget m a iz ir))
           else cget m a iz ir)" for a iz ir
    by (simp add: v1 v2 fget_layout [OF lay1])
  with l1 l2 l3 v3 show ?thesis by blast
qed

text \<open>
  Claim C8. Two launches of the spectral filter with the damping array \<open>w\<close> and one launch
  with the array of the \<^verbatim>\<open>float64\<close> squares of \<open>w\<close>, on three different component arrays
  (and on the array of the scalar filter): in an element of a component at a cell inside
  \<open>Nz\<close> by \<open>Nr\<close> that the launch covers, the two launches leave the element multiplied by
  \<open>w\<close> and rounded, multiplied by \<open>w\<close> again and rounded again, and the one launch leaves
  the element multiplied by the square and rounded once; every other element is left as it
  was by both.
\<close>

theorem filter_twice_and_filter_with_square:
  assumes fits: "cfits m [fieldr, fieldt, fieldz, field] Nz Nr"
      "ffits m [filter_array, filter_square] Nz Nr"
    and sq: "\<forall>iz ir. fget m filter_square iz ir
                      = float64_mul (fget m filter_array iz ir) (fget m filter_array iz ir)"
    and na: "distinct [fieldr, fieldt, fieldz]"
  shows "(\<exists>m1 m2 n.
        launch (cuda_filter_vector fieldr fieldt fieldz filter_array Nz Nr) griddim blockdim m = Inr m1
      \<and> launch (cuda_filter_vector fieldr fieldt fieldz filter_array Nz Nr) griddim blockdim m1 = Inr m2
      \<and> launch (cuda_filter_vector fieldr fieldt fieldz filter_square Nz Nr) griddim blockdim m = Inr n
      \<and> (\<forall>a iz ir.
           if a \<in> set [fieldr, fieldt, fieldz] \<and> int iz < sint Nz \<and> int ir < sint Nr
              \<and> iz < fst griddim * fst blockdim \<and> ir < snd griddim * snd blockdim
           then cget m2 a iz ir
                  = float64_mul_complex128 (fget m filter_array iz ir)
                      (float64_mul_complex128 (fget m filter_array iz ir) (cget m a iz ir))
              \<and> cget n a iz ir
                  = float64_mul_complex128
                      (float64_mul (fget m filter_array iz ir) (fget m filter_array iz ir))
                      (cget m a iz ir)
           else cget m2 a iz ir = cget m a iz ir \<and> cget n a iz ir = cget m a iz ir))
   \<and> (\<exists>m1 m2 n.
        launch (cuda_filter_scalar field filter_array Nz Nr) griddim blockdim m = Inr m1
      \<and> launch (cuda_filter_scalar field filter_array Nz Nr) griddim blockdim m1 = Inr m2
      \<and> launch (cuda_filter_scalar field filter_square Nz Nr) griddim blockdim m = Inr n
      \<and> (\<forall>a iz ir.
           if a = field \<and> int iz < sint Nz \<and> int ir < sint Nr
              \<and> iz < fst griddim * fst blockdim \<and> ir < snd griddim * snd blockdim
           then cget m2 a iz ir
                  = float64_mul_complex128 (fget m filter_array iz ir)
                      (float64_mul_complex128 (fget m filter_array iz ir) (cget m a iz ir))
              \<and> cget n a iz ir
                  = float64_mul_complex128
                      (float64_mul (fget m filter_array iz ir) (fget m filter_array iz ir))
                      (cget m a iz ir)
           else cget m2 a iz ir = cget m a iz ir \<and> cget n a iz ir = cget m a iz ir))"
proof (rule conjI)
  from fits have fv: "cfits m [fieldr, fieldt, fieldz] Nz Nr"
    by (simp add: cfits_def)
  from na have k: "count_list [fieldr, fieldt, fieldz] a
      = (if a \<in> set [fieldr, fieldt, fieldz] then 1 else 0)" for a
    by auto
  from cuda_filter_vector_twice [OF fv fits(2), of griddim blockdim] obtain m1 m2 n where
    l: "launch (cuda_filter_vector fieldr fieldt fieldz filter_array Nz Nr) griddim blockdim m = Inr m1"
      "launch (cuda_filter_vector fieldr fieldt fieldz filter_array Nz Nr) griddim blockdim m1 = Inr m2"
      "launch (cuda_filter_vector fieldr fieldt fieldz filter_square Nz Nr) griddim blockdim m = Inr n"
    and v: "\<And>a iz ir.
           cget m2 a iz ir =
             (if int iz < sint Nz \<and> int ir < sint Nr \<and> iz < fst griddim * fst blockdim
                 \<and> ir < snd griddim * snd blockdim
              then (float64_mul_complex128 (fget m filter_array iz ir)
                      ^^ count_list [fieldr, fieldt, fieldz] a)
                     ((float64_mul_complex128 (fget m filter_array iz ir)
                         ^^ count_list [fieldr, fieldt, fieldz] a) (cget m a iz ir))
              else cget m a iz ir)
         \<and> cget n a iz ir =
             (if int iz < sint Nz \<and> int ir < sint Nr \<and> iz < fst griddim * fst blockdim
                 \<and> ir < snd griddim * snd blockdim
              then (float64_mul_complex128 (fget m filter_square iz ir)
                      ^^ count_list [fieldr, fieldt, fieldz] a) (cget m a iz ir)
              else cget m a iz ir)"
    by blast
  have "if a \<in> set [fieldr, fieldt, fieldz] \<and> int iz < sint Nz \<and> int ir < sint Nr
              \<and> iz < fst griddim * fst blockdim \<and> ir < snd griddim * snd blockdim
           then cget m2 a iz ir
                  = float64_mul_complex128 (fget m filter_array iz ir)
                      (float64_mul_complex128 (fget m filter_array iz ir) (cget m a iz ir))
              \<and> cget n a iz ir
                  = float64_mul_complex128
                      (float64_mul (fget m filter_array iz ir) (fget m filter_array iz ir))
                      (cget m a iz ir)
           else cget m2 a iz ir = cget m a iz ir \<and> cget n a iz ir = cget m a iz ir" for a iz ir
    using sq by (simp add: v [unfolded k])
  with l show "\<exists>m1 m2 n.
        launch (cuda_filter_vector fieldr fieldt fieldz filter_array Nz Nr) griddim blockdim m = Inr m1
      \<and> launch (cuda_filter_vector fieldr fieldt fieldz filter_array Nz Nr) griddim blockdim m1 = Inr m2
      \<and> launch (cuda_filter_vector fieldr fieldt fieldz filter_square Nz Nr) griddim blockdim m = Inr n
      \<and> (\<forall>a iz ir.
           if a \<in> set [fieldr, fieldt, fieldz] \<and> int iz < sint Nz \<and> int ir < sint Nr
              \<and> iz < fst griddim * fst blockdim \<and> ir < snd griddim * snd blockdim
           then cget m2 a iz ir
                  = float64_mul_complex128 (fget m filter_array iz ir)
                      (float64_mul_complex128 (fget m filter_array iz ir) (cget m a iz ir))
              \<and> cget n a iz ir
                  = float64_mul_complex128
                      (float64_mul (fget m filter_array iz ir) (fget m filter_array iz ir))
                      (cget m a iz ir)
           else cget m2 a iz ir = cget m a iz ir \<and> cget n a iz ir = cget m a iz ir)"
    by blast
next
  from fits have fv: "cfits m [field] Nz Nr"
    by (simp add: cfits_def)
  from cuda_filter_scalar_twice [OF fv fits(2), of griddim blockdim] obtain m1 m2 n where
    l: "launch (cuda_filter_scalar field filter_array Nz Nr) griddim blockdim m = Inr m1"
      "launch (cuda_filter_scalar field filter_array Nz Nr) griddim blockdim m1 = Inr m2"
      "launch (cuda_filter_scalar field filter_square Nz Nr) griddim blockdim m = Inr n"
    and v: "\<And>a iz ir.
           cget m2 a iz ir =
             (if int iz < sint Nz \<and> int ir < sint Nr \<and> iz < fst griddim * fst blockdim
                 \<and> ir < snd griddim * snd blockdim
              then (float64_mul_complex128 (fget m filter_array iz ir) ^^ count_list [field] a)
                     ((float64_mul_complex128 (fget m filter_array iz ir) ^^ count_list [field] a)
                        (cget m a iz ir))
              else cget m a iz ir)
         \<and> cget n a iz ir =
             (if int iz < sint Nz \<and> int ir < sint Nr \<and> iz < fst griddim * fst blockdim
                 \<and> ir < snd griddim * snd blockdim
              then (float64_mul_complex128 (fget m filter_square iz ir) ^^ count_list [field] a)
                     (cget m a iz ir)
              else cget m a iz ir)"
    by blast
  have "if a = field \<and> int iz < sint Nz \<and> int ir < sint Nr
              \<and> iz < fst griddim * fst blockdim \<and> ir < snd griddim * snd blockdim
           then cget m2 a iz ir
                  = float64_mul_complex128 (fget m filter_array iz ir)
                      (float64_mul_complex128 (fget m filter_array iz ir) (cget m a iz ir))
              \<and> cget n a iz ir
                  = float64_mul_complex128
                      (float64_mul (fget m filter_array iz ir) (fget m filter_array iz ir))
                      (cget m a iz ir)
           else cget m2 a iz ir = cget m a iz ir \<and> cget n a iz ir = cget m a iz ir" for a iz ir
    using sq by (simp add: v)
  with l show "\<exists>m1 m2 n.
        launch (cuda_filter_scalar field filter_array Nz Nr) griddim blockdim m = Inr m1
      \<and> launch (cuda_filter_scalar field filter_array Nz Nr) griddim blockdim m1 = Inr m2
      \<and> launch (cuda_filter_scalar field filter_square Nz Nr) griddim blockdim m = Inr n
      \<and> (\<forall>a iz ir.
           if a = field \<and> int iz < sint Nz \<and> int ir < sint Nr
              \<and> iz < fst griddim * fst blockdim \<and> ir < snd griddim * snd blockdim
           then cget m2 a iz ir
                  = float64_mul_complex128 (fget m filter_array iz ir)
                      (float64_mul_complex128 (fget m filter_array iz ir) (cget m a iz ir))
              \<and> cget n a iz ir
                  = float64_mul_complex128
                      (float64_mul (fget m filter_array iz ir) (fget m filter_array iz ir))
                      (cget m a iz ir)
           else cget m2 a iz ir = cget m a iz ir \<and> cget n a iz ir = cget m a iz ir)"
    by blast
qed

theorem filter_twice_and_filter_with_square_witness:
  "cfits filter_example_memory [0, 1, 2, 3] 2 2 \<and> ffits filter_example_memory [0, 1] 2 2
   \<and> (\<forall>iz ir. fget filter_example_memory 1 iz ir
                  = float64_mul (fget filter_example_memory 0 iz ir)
                      (fget filter_example_memory 0 iz ir))
   \<and> distinct [0, 1, 2 :: ref]
   \<and> (\<exists>m1 m2 n.
        launch (cuda_filter_vector 0 1 2 0 2 2) (1, 1) (2, 2) filter_example_memory = Inr m1
      \<and> launch (cuda_filter_vector 0 1 2 0 2 2) (1, 1) (2, 2) m1 = Inr m2
      \<and> launch (cuda_filter_vector 0 1 2 1 2 2) (1, 1) (2, 2) filter_example_memory = Inr n
      \<and> cget m2 2 0 1 = Complex (9 / 16) (9 / 32) \<and> cget n 2 0 1 = Complex (9 / 16) (9 / 32)
      \<and> cget m2 3 0 1 = Complex 1 (1 / 2) \<and> cget n 3 0 1 = Complex 1 (1 / 2))
   \<and> (\<exists>m1 m2 n.
        launch (cuda_filter_scalar 3 0 2 2) (1, 1) (2, 2) filter_example_memory = Inr m1
      \<and> launch (cuda_filter_scalar 3 0 2 2) (1, 1) (2, 2) m1 = Inr m2
      \<and> launch (cuda_filter_scalar 3 1 2 2) (1, 1) (2, 2) filter_example_memory = Inr n
      \<and> cget m2 3 0 1 = Complex (9 / 16) (9 / 32) \<and> cget n 3 0 1 = Complex (9 / 16) (9 / 32)
      \<and> cget m2 2 0 1 = Complex 1 (1 / 2) \<and> cget n 2 0 1 = Complex 1 (1 / 2))"
proof -
  have h1: "cfits filter_example_memory [0, 1, 2, 3] 2 2"
    and h2: "ffits filter_example_memory [0, 1] 2 2"
    by (simp_all add: cfits_def ffits_def filter_example_memory_def uniform_memory_def)
  have h3: "\<forall>iz ir. fget filter_example_memory 1 iz ir
                  = float64_mul (fget filter_example_memory 0 iz ir)
                      (fget filter_example_memory 0 iz ir)"
    by (simp add: fget_def filter_example_memory_def uniform_memory_def float64_mul_exact)
  have h4: "distinct [0, 1, 2 :: ref]"
    by simp
  note t = filter_twice_and_filter_with_square
      [where griddim = "(1, 1)" and blockdim = "(2, 2)", OF h1 h2 h3 h4]
  from t [THEN conjunct1] obtain m1 m2 n where
    l: "launch (cuda_filter_vector 0 1 2 0 2 2) (1, 1) (2, 2) filter_example_memory = Inr m1"
      "launch (cuda_filter_vector 0 1 2 0 2 2) (1, 1) (2, 2) m1 = Inr m2"
      "launch (cuda_filter_vector 0 1 2 1 2 2) (1, 1) (2, 2) filter_example_memory = Inr n"
    and v: "\<And>a iz ir.
           if a \<in> set [0, 1, 2] \<and> int iz < sint (2 :: int32) \<and> int ir < sint (2 :: int32)
              \<and> iz < fst (1 :: nat, 1 :: nat) * fst (2 :: nat, 2 :: nat)
              \<and> ir < snd (1 :: nat, 1 :: nat) * snd (2 :: nat, 2 :: nat)
           then cget m2 a iz ir
                  = float64_mul_complex128 (fget filter_example_memory 0 iz ir)
                      (float64_mul_complex128 (fget filter_example_memory 0 iz ir)
                         (cget filter_example_memory a iz ir))
              \<and> cget n a iz ir
                  = float64_mul_complex128
                      (float64_mul (fget filter_example_memory 0 iz ir)
                         (fget filter_example_memory 0 iz ir))
                      (cget filter_example_memory a iz ir)
           else cget m2 a iz ir = cget filter_example_memory a iz ir
              \<and> cget n a iz ir = cget filter_example_memory a iz ir"
    by blast
  from v [of 2 0 1] v [of 3 0 1]
  have "cget m2 2 0 1 = Complex (9 / 16) (9 / 32) \<and> cget n 2 0 1 = Complex (9 / 16) (9 / 32)
      \<and> cget m2 3 0 1 = Complex 1 (1 / 2) \<and> cget n 3 0 1 = Complex 1 (1 / 2)"
    by (simp add: fget_def cget_def filter_example_memory_def uniform_memory_def
          float64_mul_complex128_def float64_mul_exact)
  with l have vec: "\<exists>m1 m2 n.
        launch (cuda_filter_vector 0 1 2 0 2 2) (1, 1) (2, 2) filter_example_memory = Inr m1
      \<and> launch (cuda_filter_vector 0 1 2 0 2 2) (1, 1) (2, 2) m1 = Inr m2
      \<and> launch (cuda_filter_vector 0 1 2 1 2 2) (1, 1) (2, 2) filter_example_memory = Inr n
      \<and> cget m2 2 0 1 = Complex (9 / 16) (9 / 32) \<and> cget n 2 0 1 = Complex (9 / 16) (9 / 32)
      \<and> cget m2 3 0 1 = Complex 1 (1 / 2) \<and> cget n 3 0 1 = Complex 1 (1 / 2)"
    by blast
  from t [THEN conjunct2] obtain m1 m2 n where
    l: "launch (cuda_filter_scalar 3 0 2 2) (1, 1) (2, 2) filter_example_memory = Inr m1"
      "launch (cuda_filter_scalar 3 0 2 2) (1, 1) (2, 2) m1 = Inr m2"
      "launch (cuda_filter_scalar 3 1 2 2) (1, 1) (2, 2) filter_example_memory = Inr n"
    and v: "\<And>a iz ir.
           if a = 3 \<and> int iz < sint (2 :: int32) \<and> int ir < sint (2 :: int32)
              \<and> iz < fst (1 :: nat, 1 :: nat) * fst (2 :: nat, 2 :: nat)
              \<and> ir < snd (1 :: nat, 1 :: nat) * snd (2 :: nat, 2 :: nat)
           then cget m2 a iz ir
                  = float64_mul_complex128 (fget filter_example_memory 0 iz ir)
                      (float64_mul_complex128 (fget filter_example_memory 0 iz ir)
                         (cget filter_example_memory a iz ir))
              \<and> cget n a iz ir
                  = float64_mul_complex128
                      (float64_mul (fget filter_example_memory 0 iz ir)
                         (fget filter_example_memory 0 iz ir))
                      (cget filter_example_memory a iz ir)
           else cget m2 a iz ir = cget filter_example_memory a iz ir
              \<and> cget n a iz ir = cget filter_example_memory a iz ir"
    by blast
  from v [of 3 0 1] v [of 2 0 1]
  have "cget m2 3 0 1 = Complex (9 / 16) (9 / 32) \<and> cget n 3 0 1 = Complex (9 / 16) (9 / 32)
      \<and> cget m2 2 0 1 = Complex 1 (1 / 2) \<and> cget n 2 0 1 = Complex 1 (1 / 2)"
    by (simp add: fget_def cget_def filter_example_memory_def uniform_memory_def
          float64_mul_complex128_def float64_mul_exact)
  with l have sca: "\<exists>m1 m2 n.
        launch (cuda_filter_scalar 3 0 2 2) (1, 1) (2, 2) filter_example_memory = Inr m1
      \<and> launch (cuda_filter_scalar 3 0 2 2) (1, 1) (2, 2) m1 = Inr m2
      \<and> launch (cuda_filter_scalar 3 1 2 2) (1, 1) (2, 2) filter_example_memory = Inr n
      \<and> cget m2 3 0 1 = Complex (9 / 16) (9 / 32) \<and> cget n 3 0 1 = Complex (9 / 16) (9 / 32)
      \<and> cget m2 2 0 1 = Complex 1 (1 / 2) \<and> cget n 2 0 1 = Complex 1 (1 / 2)"
    by blast
  from h1 h2 h3 h4 vec sca show ?thesis
    by (intro conjI)
qed

text \<open>
  The two results are not equal in general. In the row \<open>iz = 1\<close> of the example memory the
  element is the \<^verbatim>\<open>float64\<close> number nearest to 0.1 and the damping is 0.75, whose square
  0.5625 is exact: two launches leave \<open>8106479329266894 / 2^57\<close>, printed
  0.05625000000000001, and one launch with the square leaves \<open>8106479329266893 / 2^57\<close>,
  printed 0.05625.
\<close>

theorem filter_twice_differs_from_filter_with_square:
  "(\<forall>iz ir. fget filter_example_memory 1 iz ir
               = fget filter_example_memory 0 iz ir * fget filter_example_memory 0 iz ir)
   \<and> (\<exists>m1 m2 n.
        launch (cuda_filter_vector 0 1 2 0 2 2) (1, 1) (2, 2) filter_example_memory = Inr m1
      \<and> launch (cuda_filter_vector 0 1 2 0 2 2) (1, 1) (2, 2) m1 = Inr m2
      \<and> launch (cuda_filter_vector 0 1 2 1 2 2) (1, 1) (2, 2) filter_example_memory = Inr n
      \<and> cget m2 0 1 0 = Complex (4053239664633447 / 72057594037927936) 0
      \<and> cget n 0 1 0 = Complex (8106479329266893 / 144115188075855872) 0
      \<and> cget m2 0 1 0 \<noteq> cget n 0 1 0)
   \<and> (\<exists>m1 m2 n.
        launch (cuda_filter_scalar 3 0 2 2) (1, 1) (2, 2) filter_example_memory = Inr m1
      \<and> launch (cuda_filter_scalar 3 0 2 2) (1, 1) (2, 2) m1 = Inr m2
      \<and> launch (cuda_filter_scalar 3 1 2 2) (1, 1) (2, 2) filter_example_memory = Inr n
      \<and> cget m2 3 1 0 = Complex (4053239664633447 / 72057594037927936) 0
      \<and> cget n 3 1 0 = Complex (8106479329266893 / 144115188075855872) 0
      \<and> cget m2 3 1 0 \<noteq> cget n 3 1 0)"
proof -
  have sq: "\<forall>iz ir. fget filter_example_memory 1 iz ir
               = fget filter_example_memory 0 iz ir * fget filter_example_memory 0 iz ir"
    by (simp add: fget_def filter_example_memory_def uniform_memory_def)
  have fv: "cfits filter_example_memory [0, 1, 2] 2 2"
    and fs: "cfits filter_example_memory [3] 2 2"
    and fw: "ffits filter_example_memory [0, 1] 2 2"
    by (simp_all add: cfits_def ffits_def filter_example_memory_def uniform_memory_def)
  from cuda_filter_vector_twice [OF fv fw, of "(1, 1)" "(2, 2)"] obtain m1 m2 n where
    l: "launch (cuda_filter_vector 0 1 2 0 2 2) (1, 1) (2, 2) filter_example_memory = Inr m1"
      "launch (cuda_filter_vector 0 1 2 0 2 2) (1, 1) (2, 2) m1 = Inr m2"
      "launch (cuda_filter_vector 0 1 2 1 2 2) (1, 1) (2, 2) filter_example_memory = Inr n"
    and v: "\<And>a iz ir.
           cget m2 a iz ir =
             (if int iz < sint (2 :: int32) \<and> int ir < sint (2 :: int32)
                 \<and> iz < fst (1 :: nat, 1 :: nat) * fst (2 :: nat, 2 :: nat)
                 \<and> ir < snd (1 :: nat, 1 :: nat) * snd (2 :: nat, 2 :: nat)
              then (float64_mul_complex128 (fget filter_example_memory 0 iz ir)
                      ^^ count_list [0, 1, 2] a)
                     ((float64_mul_complex128 (fget filter_example_memory 0 iz ir)
                         ^^ count_list [0, 1, 2] a) (cget filter_example_memory a iz ir))
              else cget filter_example_memory a iz ir)
         \<and> cget n a iz ir =
             (if int iz < sint (2 :: int32) \<and> int ir < sint (2 :: int32)
                 \<and> iz < fst (1 :: nat, 1 :: nat) * fst (2 :: nat, 2 :: nat)
                 \<and> ir < snd (1 :: nat, 1 :: nat) * snd (2 :: nat, 2 :: nat)
              then (float64_mul_complex128 (fget filter_example_memory 1 iz ir)
                      ^^ count_list [0, 1, 2] a) (cget filter_example_memory a iz ir)
              else cget filter_example_memory a iz ir)"
    by blast
  from v [of 0 1 0]
  have "cget m2 0 1 0 = Complex (4053239664633447 / 72057594037927936) 0
      \<and> cget n 0 1 0 = Complex (8106479329266893 / 144115188075855872) 0"
    by (simp add: fget_def cget_def filter_example_memory_def uniform_memory_def
          float64_mul_complex128_def float64_mul_rounded float64_mul_zero)
  then have "cget m2 0 1 0 = Complex (4053239664633447 / 72057594037927936) 0
      \<and> cget n 0 1 0 = Complex (8106479329266893 / 144115188075855872) 0
      \<and> cget m2 0 1 0 \<noteq> cget n 0 1 0"
    by simp
  with l have vec: "\<exists>m1 m2 n.
        launch (cuda_filter_vector 0 1 2 0 2 2) (1, 1) (2, 2) filter_example_memory = Inr m1
      \<and> launch (cuda_filter_vector 0 1 2 0 2 2) (1, 1) (2, 2) m1 = Inr m2
      \<and> launch (cuda_filter_vector 0 1 2 1 2 2) (1, 1) (2, 2) filter_example_memory = Inr n
      \<and> cget m2 0 1 0 = Complex (4053239664633447 / 72057594037927936) 0
      \<and> cget n 0 1 0 = Complex (8106479329266893 / 144115188075855872) 0
      \<and> cget m2 0 1 0 \<noteq> cget n 0 1 0"
    by blast
  from cuda_filter_scalar_twice [OF fs fw, of "(1, 1)" "(2, 2)"] obtain m1 m2 n where
    l: "launch (cuda_filter_scalar 3 0 2 2) (1, 1) (2, 2) filter_example_memory = Inr m1"
      "launch (cuda_filter_scalar 3 0 2 2) (1, 1) (2, 2) m1 = Inr m2"
      "launch (cuda_filter_scalar 3 1 2 2) (1, 1) (2, 2) filter_example_memory = Inr n"
    and v: "\<And>a iz ir.
           cget m2 a iz ir =
             (if int iz < sint (2 :: int32) \<and> int ir < sint (2 :: int32)
                 \<and> iz < fst (1 :: nat, 1 :: nat) * fst (2 :: nat, 2 :: nat)
                 \<and> ir < snd (1 :: nat, 1 :: nat) * snd (2 :: nat, 2 :: nat)
              then (float64_mul_complex128 (fget filter_example_memory 0 iz ir)
                      ^^ count_list [3] a)
                     ((float64_mul_complex128 (fget filter_example_memory 0 iz ir)
                         ^^ count_list [3] a) (cget filter_example_memory a iz ir))
              else cget filter_example_memory a iz ir)
         \<and> cget n a iz ir =
             (if int iz < sint (2 :: int32) \<and> int ir < sint (2 :: int32)
                 \<and> iz < fst (1 :: nat, 1 :: nat) * fst (2 :: nat, 2 :: nat)
                 \<and> ir < snd (1 :: nat, 1 :: nat) * snd (2 :: nat, 2 :: nat)
              then (float64_mul_complex128 (fget filter_example_memory 1 iz ir)
                      ^^ count_list [3] a) (cget filter_example_memory a iz ir)
              else cget filter_example_memory a iz ir)"
    by blast
  from v [of 3 1 0]
  have "cget m2 3 1 0 = Complex (4053239664633447 / 72057594037927936) 0
      \<and> cget n 3 1 0 = Complex (8106479329266893 / 144115188075855872) 0"
    by (simp add: fget_def cget_def filter_example_memory_def uniform_memory_def
          float64_mul_complex128_def float64_mul_rounded float64_mul_zero)
  then have "cget m2 3 1 0 = Complex (4053239664633447 / 72057594037927936) 0
      \<and> cget n 3 1 0 = Complex (8106479329266893 / 144115188075855872) 0
      \<and> cget m2 3 1 0 \<noteq> cget n 3 1 0"
    by simp
  with l have sca: "\<exists>m1 m2 n.
        launch (cuda_filter_scalar 3 0 2 2) (1, 1) (2, 2) filter_example_memory = Inr m1
      \<and> launch (cuda_filter_scalar 3 0 2 2) (1, 1) (2, 2) m1 = Inr m2
      \<and> launch (cuda_filter_scalar 3 1 2 2) (1, 1) (2, 2) filter_example_memory = Inr n
      \<and> cget m2 3 1 0 = Complex (4053239664633447 / 72057594037927936) 0
      \<and> cget n 3 1 0 = Complex (8106479329266893 / 144115188075855872) 0
      \<and> cget m2 3 1 0 \<noteq> cget n 3 1 0"
    by blast
  from sq vec sca show ?thesis
    by (intro conjI)
qed

section \<open>Threads outside the grid\<close>

text \<open>
  Claim C9. A thread whose position fails the guard of its kernel (the bounds \<open>Nz\<close>, \<open>Nr\<close>,
  or the shape of the first array for the erase and divide-by-volume kernels) returns the
  memory it was given and no error.
\<close>

theorem out_of_range_thread_skips:
  "(\<not> (iz < shape0 (complex128_2d m mode0) \<and> ir < shape1 (complex128_2d m mode0)) \<longrightarrow>
      cuda_erase_scalar mode0 mode1 iz ir m = Inr m
    \<and> cuda_divide_scalar_by_volume mode0 mode1 invvol0 invvol1 iz ir m = Inr m)
   \<and> (\<not> (iz < shape0 (complex128_2d m mode0r) \<and> ir < shape1 (complex128_2d m mode0r)) \<longrightarrow>
      cuda_erase_vector mode0r mode1r mode0t mode1t mode0z mode1z iz ir m = Inr m
    \<and> cuda_divide_vector_by_volume mode0r mode1r mode0t mode1t mode0z mode1z invvol0 invvol1
         iz ir m = Inr m)
   \<and> (\<not> (int iz < sint Nz \<and> int ir < sint Nr) \<longrightarrow>
      cuda_correct_currents rho_prev rho_next Jp Jm Jz kz kr inv_k2 j_corr_coef T inv_dt Nz Nr
        iz ir m = Inr m
    \<and> cuda_push_eb_with c epsilon_0 mu_0 Ep Em Ez Bp Bm Bz Jp Jm Jz rho_prev rho_next
        rho_prev_coef rho_next_coef j_coef C S_w T T_rho kr kz dt V
        ptcl_feedback use_true_rho Nz Nr iz ir m = Inr m
    \<and> cuda_push_rho rho_prev rho_next Nz Nr iz ir m = Inr m
    \<and> cuda_filter_scalar field filter_array Nz Nr iz ir m = Inr m
    \<and> cuda_filter_vector fieldr fieldt fieldz filter_array Nz Nr iz ir m = Inr m)"
proof (intro conjI impI)
  assume g: "\<not> (iz < shape0 (complex128_2d m mode0) \<and> ir < shape1 (complex128_2d m mode0))"
  then show "cuda_erase_scalar mode0 mode1 iz ir m = Inr m"
    by (simp only: cuda_erase_scalar_def if_False)
  from g show "cuda_divide_scalar_by_volume mode0 mode1 invvol0 invvol1 iz ir m = Inr m"
    by (simp only: cuda_divide_scalar_by_volume_def if_False)
next
  assume g: "\<not> (iz < shape0 (complex128_2d m mode0r) \<and> ir < shape1 (complex128_2d m mode0r))"
  then show "cuda_erase_vector mode0r mode1r mode0t mode1t mode0z mode1z iz ir m = Inr m"
    by (simp only: cuda_erase_vector_def if_False)
  from g show "cuda_divide_vector_by_volume mode0r mode1r mode0t mode1t mode0z mode1z
                 invvol0 invvol1 iz ir m = Inr m"
    by (simp only: cuda_divide_vector_by_volume_def if_False)
next
  assume g: "\<not> (int iz < sint Nz \<and> int ir < sint Nr)"
  then show "cuda_correct_currents rho_prev rho_next Jp Jm Jz kz kr inv_k2 j_corr_coef T inv_dt
               Nz Nr iz ir m = Inr m"
    by (rule cuda_correct_currents_skip)
  from g show "cuda_push_eb_with c epsilon_0 mu_0 Ep Em Ez Bp Bm Bz Jp Jm Jz rho_prev rho_next
        rho_prev_coef rho_next_coef j_coef C S_w T T_rho kr kz dt V
        ptcl_feedback use_true_rho Nz Nr iz ir m = Inr m"
    by (rule cuda_push_eb_with_skip)
  from g show "cuda_push_rho rho_prev rho_next Nz Nr iz ir m = Inr m"
    by (rule cuda_push_rho_skip)
  from g show "cuda_filter_scalar field filter_array Nz Nr iz ir m = Inr m"
    by (rule cuda_filter_scalar_skip)
  from g show "cuda_filter_vector fieldr fieldt fieldz filter_array Nz Nr iz ir m = Inr m"
    by (rule cuda_filter_vector_skip)
qed

theorem out_of_range_thread_skips_witness:
  "\<not> ((2 :: nat) < shape0 (complex128_2d example_memory 0)
        \<and> (0 :: nat) < shape1 (complex128_2d example_memory 0))
   \<and> \<not> (int 2 < sint (2 :: int32) \<and> int 0 < sint (2 :: int32))
   \<and> cuda_erase_scalar 0 1 2 0 example_memory = Inr example_memory
   \<and> cuda_divide_scalar_by_volume 0 1 0 1 2 0 example_memory = Inr example_memory
   \<and> cuda_erase_vector 0 1 2 3 4 5 2 0 example_memory = Inr example_memory
   \<and> cuda_divide_vector_by_volume 0 1 2 3 4 5 0 1 2 0 example_memory = Inr example_memory
   \<and> cuda_correct_currents 9 10 6 7 8 0 1 2 13 14 1 2 2 2 0 example_memory = Inr example_memory
   \<and> cuda_push_eb_with 2 1 3 0 1 2 3 4 5 6 7 8 9 10 11 12 13 0 1 14 15 1 0 1 5 1 1 2 2
        2 0 example_memory = Inr example_memory
   \<and> cuda_push_rho 9 10 2 2 2 0 example_memory = Inr example_memory
   \<and> cuda_filter_scalar 0 0 2 2 2 0 example_memory = Inr example_memory
   \<and> cuda_filter_vector 0 1 2 0 2 2 2 0 example_memory = Inr example_memory"
proof -
  have g1: "\<not> ((2 :: nat) < shape0 (complex128_2d example_memory 0)
        \<and> (0 :: nat) < shape1 (complex128_2d example_memory 0))"
    by (simp add: example_memory_def uniform_memory_def)
  have g2: "\<not> (int 2 < sint (2 :: int32) \<and> int 0 < sint (2 :: int32))"
    by simp
  from g1 g2 out_of_range_thread_skips
    [where m = example_memory and iz = 2 and ir = 0 and ?mode0.0 = 0 and ?mode1.0 = 1
       and ?invvol0.0 = 0 and ?invvol1.0 = 1
       and mode0r = 0 and mode1r = 1 and mode0t = 2 and mode1t = 3 and mode0z = 4 and mode1z = 5
       and Nz = 2 and Nr = 2 and rho_prev = 9 and rho_next = 10 and Jp = 6 and Jm = 7 and Jz = 8
       and kz = 0 and kr = 1 and ?inv_k2.0 = 2 and j_corr_coef = 13 and T = 14 and inv_dt = 1
       and c = 2 and ?epsilon_0.0 = 1 and ?mu_0.0 = 3 and Ep = 0 and Em = 1 and Ez = 2
       and Bp = 3 and Bm = 4 and Bz = 5 and rho_prev_coef = 11 and rho_next_coef = 12
       and j_coef = 13 and C = 0 and S_w = 1 and T_rho = 15 and dt = 1 and V = 5
       and ptcl_feedback = 1 and use_true_rho = 1
       and field = 0 and filter_array = 0 and fieldr = 0 and fieldt = 1 and fieldz = 2]
  show ?thesis by blast
qed

section \<open>What the field push writes\<close>

text \<open>
  Claim C10. A launch of the field push stores into the six field arrays only: every other
  complex array (the currents, the charge densities and the complex coefficients among
  them) and every real array is, as a whole, what it was before the launch.
\<close>

theorem push_eb_writes_fields_only:
  assumes fits: "cfits m [Ep, Em, Ez, Bp, Bm, Bz, Jp, Jm, Jz, rho_prev, rho_next,
                      rho_prev_coef, rho_next_coef, j_coef, T, T_rho] Nz Nr"
      "ffits m [C, S_w, kr, kz] Nz Nr"
  shows "\<exists>m'. launch (cuda_push_eb_with c epsilon_0 mu_0 Ep Em Ez Bp Bm Bz Jp Jm Jz rho_prev rho_next
                    rho_prev_coef rho_next_coef j_coef C S_w T T_rho kr kz dt V
                    ptcl_feedback use_true_rho Nz Nr) griddim blockdim m = Inr m'
     \<and> (\<forall>a. a \<notin> {Ep, Em, Ez, Bp, Bm, Bz} \<longrightarrow> complex128_2d m' a = complex128_2d m a)
     \<and> float64_2d m' = float64_2d m \<and> float64_1d m' = float64_1d m"
proof -
  let ?k = "cuda_push_eb_with c epsilon_0 mu_0 Ep Em Ez Bp Bm Bz Jp Jm Jz rho_prev rho_next
              rho_prev_coef rho_next_coef j_coef C S_w T T_rho kr kz dt V
              ptcl_feedback use_true_rho Nz Nr"
  from cuda_push_eb_with_launch_total [OF fits] obtain m' where
    l: "launch ?k griddim blockdim m = Inr m'" by blast
  have "writes_only_arrays [Ep, Em, Ez, Bp, Bm, Bz] m m'"
    by (rule run_threads_arrays [OF cuda_push_eb_with_arrays l [unfolded launch_def]])
  with l show ?thesis by (auto simp: writes_only_arrays_def)
qed

theorem push_eb_writes_fields_only_witness:
  "cfits example_memory [0, 1, 2, 3, 4, 5, 6, 7, 8, 9, 10, 11, 12, 13, 14, 15] 2 2
   \<and> ffits example_memory [0, 1, 2, 3] 2 2
   \<and> (6 :: ref) \<notin> {0, 1, 2, 3, 4, 5}
   \<and> (\<exists>m'. launch (cuda_push_eb_with 2 1 3 0 1 2 3 4 5 6 7 8 9 10 11 12 13 0 1 14 15 2 3 1 5
                      1 1 2 2) (1, 1) (2, 2) example_memory = Inr m'
          \<and> complex128_2d m' 6 = complex128_2d example_memory 6
          \<and> float64_2d m' = float64_2d example_memory
          \<and> float64_1d m' = float64_1d example_memory)"
  using push_eb_writes_fields_only
    [where m = example_memory and Ep = 0 and Em = 1 and Ez = 2 and Bp = 3 and Bm = 4 and Bz = 5
       and Jp = 6 and Jm = 7 and Jz = 8 and rho_prev = 9 and rho_next = 10
       and rho_prev_coef = 11 and rho_next_coef = 12 and j_coef = 13 and T = 14 and T_rho = 15
       and C = 0 and S_w = 1 and kr = 2 and kz = 3 and Nz = 2 and Nr = 2
       and ptcl_feedback = 1 and use_true_rho = 1
       and griddim = "(1, 1)" and blockdim = "(2, 2)"
       and c = 2 and ?epsilon_0.0 = 1 and ?mu_0.0 = 3 and dt = 1 and V = 5]
  by (auto simp: cfits_def ffits_def example_memory_def uniform_memory_def)

end
